theory Spec2Isabelle
  imports Main "HOL-Library.Multiset"
begin

section \<open>JavaScript values as the wallet client uses them\<close>

text \<open>
  The client is JavaScript. A property that may be absent is an \<open>option\<close>:
  \<open>None\<close> stands for \<^verbatim>\<open>undefined\<close> (and for \<^verbatim>\<open>null\<close>, which every
  test below treats alike). Record fields carry a short prefix naming their object
  (\<open>o_\<close> a payment output, \<open>p_\<close> the params of a proposal, \<open>t_\<close> a proposal,
  \<open>a_\<close> an address record of the server, \<open>ad_\<close> a derived address, \<open>k_\<close> an entry of
  the public key ring, \<open>s_\<close> a copayer entry of the server, \<open>c_\<close> a Copayer,
  \<open>d_\<close> a Device, \<open>api_\<close> the client, \<open>eo_\<close> and \<open>co_\<close> the options of export and
  of addCopayer, \<open>ext_\<close> the external collaborators); after the prefix the name is the
  source's. Functions keep the source's names; a leading underscore is dropped, and a
  static method of a class carries the class before its name.
\<close>

datatype error =
    InvalidArgument    \<comment> \<open>\<^verbatim>\<open>$.checkArgument\<close> failed\<close>
  | InvalidState       \<comment> \<open>\<^verbatim>\<open>$.checkState\<close> failed\<close>
  | TypeError          \<comment> \<open>a property read on \<^verbatim>\<open>undefined\<close>\<close>
  | LibraryError       \<comment> \<open>Bitcore or sjcl threw\<close>
  | Error string       \<comment> \<open>\<^verbatim>\<open>throw new Error(msg)\<close> or \<^verbatim>\<open>throw msg\<close>\<close>

text \<open>Truthiness of a string-valued property: absent and the empty string are falsy.\<close>

definition truthy :: "string option \<Rightarrow> bool" where
  "truthy s = (case s of None \<Rightarrow> False | Some t \<Rightarrow> t \<noteq> [])"

text \<open>\<^verbatim>\<open>a || b\<close> on string-valued properties.\<close>

definition js_or :: "string option \<Rightarrow> string option \<Rightarrow> string option" where
  "js_or a b = (if truthy a then a else b)"

text \<open>Truthiness of a number-valued property: absent and zero are falsy.\<close>

definition truthy_num :: "int option \<Rightarrow> bool" where
  "truthy_num v = (case v of None \<Rightarrow> False | Some i \<Rightarrow> i \<noteq> 0)"

text \<open>
  JSON-like data, for fields the client does not interpret (\<^verbatim>\<open>customData\<close>).
  Objects are kept with their keys in a fixed order, so that lodash's deep equality
  \<^verbatim>\<open>_.isEqual\<close> is equality of the values.
\<close>

datatype jsval =
    JNull
  | JBool bool
  | JNum int
  | JStr string
  | JArr "jsval list"
  | JObj "(string \<times> jsval) list"

fun truthy_val :: "jsval option \<Rightarrow> bool" where
  "truthy_val None = False"
| "truthy_val (Some JNull) = False"
| "truthy_val (Some (JBool b)) = b"
| "truthy_val (Some (JNum i)) = (i \<noteq> 0)"
| "truthy_val (Some (JStr s)) = (s \<noteq> [])"
| "truthy_val (Some (JArr xs)) = True"
| "truthy_val (Some (JObj kvs)) = True"

definition isEqual :: "jsval option \<Rightarrow> jsval option \<Rightarrow> bool" where
  "isEqual a b = (a = b)"

text \<open>
  \<^verbatim>\<open>Array.prototype.splice(start, deleteCount)\<close> with no items to insert, for a
  start inside the array: the elements from \<open>start\<close> on, \<open>deleteCount\<close> of them, go.
\<close>

definition splice :: "nat \<Rightarrow> nat \<Rightarrow> 'a list \<Rightarrow> 'a list" where
  "splice start deleteCount xs = take start xs @ drop (start + deleteCount) xs"

section \<open>Utils.decryptMessage\<close>

text \<open>
  \<^verbatim>\<open>sjcl.decrypt\<close> (with the base64 decoding of the key before it) is an external
  collaborator: a parameter \<open>dec key cyphertext\<close>, \<open>None\<close> when it throws.
  \<^verbatim>\<open>
  Utils.decryptMessage = function(cyphertextJson, encryptingKey) {
    if (!cyphertextJson) return;
    if (!encryptingKey) throw 'No key';
    var key = sjcl.codec.base64.toBits(encryptingKey);
    return sjcl.decrypt(key, cyphertextJson);
  };
  \<close>
\<close>

definition decryptMessage ::
  "(string \<Rightarrow> string \<Rightarrow> string option) \<Rightarrow> string option \<Rightarrow> string option
    \<Rightarrow> error + string option" where
  "decryptMessage dec cyphertextJson encryptingKey =
     (if \<not> truthy cyphertextJson then Inr None
      else if \<not> truthy encryptingKey then Inl (Error ''No key'')
      else (case dec (the encryptingKey) (the cyphertextJson) of
              None \<Rightarrow> Inl LibraryError
            | Some plain \<Rightarrow> Inr (Some plain)))"

section \<open>Verifier.checkProposalCreation\<close>

record "output" =
  o_address :: "string option"
  o_amount :: int

record params =
  p_send_all :: bool
  p_change_address :: "string option"
  p_outputs :: "output list"
  p_rest :: "jsval option"   \<comment> \<open>whatever else the params of the application hold\<close>

record proposal =
  t_app :: string
  t_params :: params
  t_message :: "string option"
  t_customData :: "jsval option"

text \<open>
  \<^verbatim>\<open>
  function strEqual(str1, str2) {
    return ((!str1 && !str2) || (str1 === str2));
  }
  \<close>
\<close>

definition strEqual :: "string option \<Rightarrow> string option \<Rightarrow> bool" where
  "strEqual str1 str2 = ((\<not> truthy str1 \<and> \<not> truthy str2) \<or> str1 = str2)"

text \<open>
  The start argument the source hands to \<^verbatim>\<open>splice\<close> is \<open>ret\<close>, which is what
  \<^verbatim>\<open>find\<close> returned: the matching output object, not its index. \<^verbatim>\<open>splice\<close>
  converts its start with ToIntegerOrInfinity; an object converts to NaN and NaN to 0.
\<close>

definition ToIntegerOrInfinity_object :: "output \<Rightarrow> nat" where
  "ToIntegerOrInfinity_object ret = 0"

text \<open>
  The loop over the submitted outputs; \<open>None\<close> is its \<^verbatim>\<open>return false\<close>, otherwise
  it leaves the server outputs not yet removed.
  \<^verbatim>\<open>
    var outputs = _.cloneDeep(txp.params.outputs);
    for (var i = 0; i < args.params.outputs.length; i++) {
      var output = args.params.outputs[i];
      var ret = outputs.find(item => strEqual(output.address, item.address)
                                     && output.amount == item.amount);
      if (!ret) return false;
      outputs.splice(ret, 1);
    }
  \<close>
\<close>

fun match_outputs :: "output list \<Rightarrow> output list \<Rightarrow> output list option" where
  "match_outputs [] outs = Some outs"
| "match_outputs (out # rest) outs =
     (case find (\<lambda>item. strEqual (o_address out) (o_address item)
                          \<and> o_amount out = o_amount item) outs of
        None \<Rightarrow> None
      | Some ret \<Rightarrow> match_outputs rest (splice (ToIntegerOrInfinity_object ret) 1 outs))"

text \<open>
  The part of the check that only a payment runs; \<open>Some v\<close> is an early
  \<^verbatim>\<open>return v\<close>, \<open>None\<close> falls through to the message and custom data checks.
  Reading \<^verbatim>\<open>outputs[0].address\<close> of an empty list throws.
\<close>

definition check_payment :: "proposal \<Rightarrow> proposal \<Rightarrow> error + bool option" where
  "check_payment args txp =
     (if p_send_all (t_params args) then
        (case (p_outputs (t_params args), p_outputs (t_params txp)) of
           (a0 # _, s0 # _) \<Rightarrow>
             (if o_address a0 \<noteq> o_address s0 then Inr (Some False) else Inr (Some True))
         | _ \<Rightarrow> Inl TypeError)
      else
        (let changeAddress =
               (if truthy (p_change_address (t_params txp))
                then p_change_address (t_params txp) else None)
         in if truthy (p_change_address (t_params args))
               \<and> \<not> strEqual changeAddress (p_change_address (t_params args))
            then Inr (Some False)
            else (case match_outputs (p_outputs (t_params args)) (p_outputs (t_params txp)) of
                    None \<Rightarrow> Inr (Some False)
                  | Some outs \<Rightarrow>
                      (if truthy (p_change_address (t_params txp)) \<and> length outs \<noteq> 1
                       then Inr (Some False)
                       else if \<not> truthy (p_change_address (t_params txp)) \<and> length outs \<noteq> 0
                       then Inr (Some False)
                       else Inr None))))"

text \<open>The checks every proposal runs: the message and the custom data.\<close>

definition check_message_customData ::
  "(string \<Rightarrow> string \<Rightarrow> string option) \<Rightarrow> proposal \<Rightarrow> proposal \<Rightarrow> string option \<Rightarrow> bool" where
  "check_message_customData dec args txp encryptingKey =
     (case decryptMessage dec (t_message args) encryptingKey of
        Inl e \<Rightarrow> False
      | Inr decryptedMessage \<Rightarrow>
          (if \<not> strEqual (t_message txp) decryptedMessage then False
           else if (truthy_val (t_customData args) \<or> truthy_val (t_customData txp))
                   \<and> \<not> isEqual (t_customData txp) (t_customData args) then False
           else True))"

definition checkProposalCreation ::
  "(string \<Rightarrow> string \<Rightarrow> string option) \<Rightarrow> proposal \<Rightarrow> proposal \<Rightarrow> string option
    \<Rightarrow> error + bool" where
  "checkProposalCreation dec args txp encryptingKey =
     (if t_app args = ''payment'' then
        (case check_payment args txp of
           Inl e \<Rightarrow> Inl e
         | Inr (Some v) \<Rightarrow> Inr v
         | Inr None \<Rightarrow> Inr (check_message_customData dec args txp encryptingKey))
      else Inr (check_message_customData dec args txp encryptingKey))"

section \<open>Numbers as strings\<close>

text \<open>
  The decimal digits of an integer. JavaScript writes an array index and every other
  safe integer so when it joins it to a string.
\<close>

definition digit_char :: "nat \<Rightarrow> char" where
  "digit_char d = ''0123456789'' ! (d mod 10)"

function string_of_nat :: "nat \<Rightarrow> string" where
  "string_of_nat i =
     (if i < 10 then [digit_char i] else string_of_nat (i div 10) @ [digit_char (i mod 10)])"
  by pat_completeness auto
termination
  by (relation "measure id") auto

definition string_of_int :: "int \<Rightarrow> string" where
  "string_of_int i =
     (if i < 0 then CHR ''-'' # string_of_nat (nat (- i)) else string_of_nat (nat i))"

section \<open>Utils.deriveAddress\<close>

text \<open>An entry of a Copayer's \<^verbatim>\<open>publicKeyRing\<close>.\<close>

record pkr_entry =
  k_xPubKey :: "string option"
  k_requestPubKey :: "string option"
  k_deviceId :: "string option"
  k_account :: "int option"

text \<open>
  An address definition: \<^verbatim>\<open>["sig", {"pubkey": pubkey}]\<close> or
  \<^verbatim>\<open>["r of set", {"required": m, "set": set}]\<close>.
\<close>

datatype defn =
    Sig string
  | ROfSet "int option" "defn list"

text \<open>What \<^verbatim>\<open>deriveAddress\<close> returns; \<open>ad_signingPaths\<close> is a JavaScript object
  used as a table from public key to signing path.\<close>

record AddressDefinition =
  ad_address :: "string option"
  ad_definition :: "defn option"
  ad_path :: "string option"
  ad_signingPaths :: "string \<rightharpoonup> string"
  ad_walletId :: "string option"

text \<open>\<^verbatim>\<open>_.values(Constants.ADDRESS_TYPES)\<close>\<close>

definition ADDRESS_TYPES :: "string list" where
  "ADDRESS_TYPES = [''normal'', ''shared'', ''script'']"

text \<open>lodash iterates over an absent collection as over an empty one.\<close>

definition map_items :: "'a list option \<Rightarrow> 'a list" where
  "map_items xs = (case xs of None \<Rightarrow> [] | Some ys \<Rightarrow> ys)"

text \<open>
  Bitcore's HD derivation is an external collaborator: \<open>hdDerive xPubKey path\<close> is the
  leaf public key \<^verbatim>\<open>new Bitcore.HDPublicKey(xPubKey).deriveChild(path).publicKey\<close> in
  the base64 form the definition holds, and \<open>None\<close> when Bitcore throws (a string that
  is no extended public key, a path it refuses).
  \<^verbatim>\<open>
  var publicKeys = _.map(publicKeyRing, function(item) {
    var xpub = new Bitcore.HDPublicKey(item.xPubKey);
    return xpub.deriveChild(path).publicKey;
  });
  \<close>
\<close>

fun derive_publicKeys ::
  "(string option \<Rightarrow> string option \<Rightarrow> string option) \<Rightarrow> pkr_entry list \<Rightarrow> string option
    \<Rightarrow> error + string list" where
  "derive_publicKeys hdDerive [] path = Inr []"
| "derive_publicKeys hdDerive (item # rest) path =
     (case hdDerive (k_xPubKey item) path of
        None \<Rightarrow> Inl LibraryError
      | Some pubkey \<Rightarrow>
          (case derive_publicKeys hdDerive rest path of
             Inl e \<Rightarrow> Inl e
           | Inr pubkeys \<Rightarrow> Inr (pubkey # pubkeys)))"

text \<open>
  \<^verbatim>\<open>
  publicKeys.forEach((item, ind) => {
    var pubkey = item.toBuffer().toString("base64");
    set.push(["sig", {"pubkey": pubkey}]);
    signingPaths[pubkey] = 'r.' + ind;
  });
  \<close>
\<close>

fun shared_forEach ::
  "string list \<Rightarrow> nat \<Rightarrow> defn list \<times> (string \<rightharpoonup> string)
    \<Rightarrow> defn list \<times> (string \<rightharpoonup> string)" where
  "shared_forEach [] ind (set_acc, signingPaths) = (set_acc, signingPaths)"
| "shared_forEach (pubkey # rest) ind (set_acc, signingPaths) =
     shared_forEach rest (Suc ind)
       (set_acc @ [Sig pubkey], signingPaths(pubkey \<mapsto> ''r.'' @ string_of_nat ind))"

text \<open>
  \<open>getChash160\<close> is the canonical hash, an external collaborator. The
  \<^verbatim>\<open>switch\<close> has a case for 'normal' and one for 'shared' and no default: for
  'script', which the check of the argument admits, address and definition stay
  \<^verbatim>\<open>undefined\<close>.
\<close>

definition deriveAddress ::
  "(string option \<Rightarrow> string option \<Rightarrow> string option) \<Rightarrow> (defn \<Rightarrow> string)
    \<Rightarrow> string option \<Rightarrow> string option \<Rightarrow> pkr_entry list option \<Rightarrow> string option \<Rightarrow> int option
    \<Rightarrow> error + AddressDefinition" where
  "deriveAddress hdDerive getChash160 walletId addressType publicKeyRing path m =
     (if addressType \<notin> Some ` set ADDRESS_TYPES then Inl InvalidArgument
      else
        (case derive_publicKeys hdDerive (map_items publicKeyRing) path of
           Inl e \<Rightarrow> Inl e
         | Inr publicKeys \<Rightarrow>
             (if addressType = Some ''normal'' then
                (case publicKeys of
                   [pubkey] \<Rightarrow>
                     Inr \<lparr>ad_address = Some (getChash160 (Sig pubkey)),
                          ad_definition = Some (Sig pubkey),
                          ad_path = path,
                          ad_signingPaths = [pubkey \<mapsto> ''r''],
                          ad_walletId = walletId\<rparr>
                 | _ \<Rightarrow> Inl InvalidState)
              else if addressType = Some ''shared'' then
                (case shared_forEach publicKeys 0 ([], Map.empty) of
                   (set_acc, signingPaths) \<Rightarrow>
                     Inr \<lparr>ad_address = Some (getChash160 (ROfSet m set_acc)),
                          ad_definition = Some (ROfSet m set_acc),
                          ad_path = path,
                          ad_signingPaths = signingPaths,
                          ad_walletId = walletId\<rparr>)
              else
                Inr \<lparr>ad_address = None, ad_definition = None, ad_path = path,
                     ad_signingPaths = Map.empty, ad_walletId = walletId\<rparr>)))"

section \<open>Copayer and Verifier.checkAddress\<close>

text \<open>A Copayer: the fields of \<^verbatim>\<open>FIELDS\<close> in copayer.js.\<close>

record copayer =
  c_account :: "int option"
  c_copayerId :: "string option"
  c_copayerName :: "string option"
  c_xPubKey :: "string option"
  c_walletId :: "string option"
  c_walletName :: "string option"
  c_m :: "int option"
  c_n :: "int option"
  c_publicKeyRing :: "pkr_entry list option"
  c_walletPrivKey :: "string option"
  c_sharedEncryptingKey :: "string option"
  c_addressType :: "string option"

text \<open>
  \<^verbatim>\<open>
  Copayer.prototype.isComplete = function() {
    if (!this.m || !this.n) return false;
    if (!this.publicKeyRing || this.publicKeyRing.length != this.n) return false;
    return true;
  };
  \<close>
\<close>

definition isComplete :: "copayer \<Rightarrow> bool" where
  "isComplete this =
     (if \<not> truthy_num (c_m this) \<or> \<not> truthy_num (c_n this) then False
      else if c_publicKeyRing this = None
              \<or> Some (int (length (map_items (c_publicKeyRing this)))) \<noteq> c_n this then False
      else True)"

text \<open>The address record the server returns, as far as the check reads it.\<close>

record server_address =
  a_address :: "string option"
  a_type :: "string option"
  a_path :: "string option"

text \<open>
  \<^verbatim>\<open>
  Verifier.checkAddress = function(copayer, address) {
    $.checkState(copayer.isComplete());
    var local = Utils.deriveAddress(copayer.walletId, address.type || copayer.addressType,
                                    copayer.publicKeyRing, address.path, copayer.m);
    return (local.address == address.address);
  };
  \<close>
\<close>

definition checkAddress ::
  "(string option \<Rightarrow> string option \<Rightarrow> string option) \<Rightarrow> (defn \<Rightarrow> string)
    \<Rightarrow> copayer \<Rightarrow> server_address \<Rightarrow> error + bool" where
  "checkAddress hdDerive getChash160 copayer address =
     (if \<not> isComplete copayer then Inl InvalidState
      else
        (case deriveAddress hdDerive getChash160 (c_walletId copayer)
                (js_or (a_type address) (c_addressType copayer))
                (c_publicKeyRing copayer) (a_path address) (c_m copayer) of
           Inl e \<Rightarrow> Inl e
         | Inr local \<Rightarrow> Inr (ad_address local = a_address address)))"

section \<open>Verifier.checkCopayers\<close>

text \<open>A JavaScript number, as far as the counter of repeated keys needs it.\<close>

datatype jsnumber = NaN | Num int

text \<open>ToNumber of a property that may be absent: \<^verbatim>\<open>undefined\<close> converts to NaN.\<close>

definition ToNumber :: "jsnumber option \<Rightarrow> jsnumber" where
  "ToNumber v = (case v of None \<Rightarrow> NaN | Some x \<Rightarrow> x)"

definition js_add1 :: "jsnumber \<Rightarrow> jsnumber" where
  "js_add1 x = (case x of NaN \<Rightarrow> NaN | Num i \<Rightarrow> Num (i + 1))"

definition truthy_number :: "jsnumber \<Rightarrow> bool" where
  "truthy_number x = (case x of NaN \<Rightarrow> False | Num i \<Rightarrow> i \<noteq> 0)"

text \<open>
  \<^verbatim>\<open>obj[key]++\<close>: the property becomes the old value, as a number, plus one; the
  expression's value is the old value as a number.
\<close>

definition postfix_increment ::
  "(string \<rightharpoonup> jsnumber) \<Rightarrow> string \<Rightarrow> (string \<rightharpoonup> jsnumber) \<times> jsnumber" where
  "postfix_increment obj key =
     (let oldValue = ToNumber (obj key) in (obj(key \<mapsto> js_add1 oldValue), oldValue))"

text \<open>An entry of the copayer list the server returns, as far as the check reads it.\<close>

record server_copayer =
  s_name :: "string option"
  s_encryptedName :: "string option"
  s_xPubKey :: "string option"
  s_requestPubKey :: "string option"
  s_signature :: "string option"

text \<open>
  \<^verbatim>\<open>[name, xPubKey, requestPubKey].join('|')\<close>: an absent element is joined as
  the empty string.
\<close>

definition array_join :: "string option list \<Rightarrow> string" where
  "array_join xs =
     concat (map (\<lambda>(i, x). (if i = 0 then [] else ''|'') @ (case x of None \<Rightarrow> [] | Some s \<Rightarrow> s))
                 (enumerate 0 xs))"

definition getCopayerHash :: "string option \<Rightarrow> string option \<Rightarrow> string option \<Rightarrow> string" where
  "getCopayerHash name xPubKey requestPubKey = array_join [name, xPubKey, requestPubKey]"

text \<open>
  \<open>ecdsa text signature pubKey\<close> stands for Bitcore: \<open>None\<close> when
  \<^verbatim>\<open>new PublicKey(pubKey)\<close> throws, otherwise whether the signature parses and
  verifies over the hash of the text (the \<^verbatim>\<open>try\<close> of the source turns a throw of
  these two into false).
  \<^verbatim>\<open>
  Utils.verifyMessage = function(text, signature, pubKey) {
    $.checkArgument(text);
    $.checkArgument(pubKey);
    if (!signature) return false;
    var pub = new PublicKey(pubKey);
    var hash = Utils.hashMessage(text);
    try {
      var sig = new crypto.Signature.fromString(signature);
      return crypto.ECDSA.verify(hash, sig, pub, 'little');
    } catch (e) { return false; }
  };
  \<close>
\<close>

definition verifyMessage ::
  "(string \<Rightarrow> string \<Rightarrow> string \<Rightarrow> bool option) \<Rightarrow> string \<Rightarrow> string option \<Rightarrow> string
    \<Rightarrow> error + bool" where
  "verifyMessage ecdsa text signature pubKey =
     (if text = [] then Inl InvalidArgument
      else if pubKey = [] then Inl InvalidArgument
      else if \<not> truthy signature then Inr False
      else (case ecdsa text (the signature) pubKey of
              None \<Rightarrow> Inl LibraryError
            | Some ok \<Rightarrow> Inr ok))"

text \<open>
  The key of the counter. The source writes \<^verbatim>\<open>uniq[copayers.xPubKey]++\<close>, with
  \<open>copayers\<close> the whole array and not the \<open>copayer\<close> of the iteration. An array
  has no property \<^verbatim>\<open>xPubKey\<close>, so the key is \<^verbatim>\<open>undefined\<close>, as a property
  name the string "undefined".
\<close>

definition array_xPubKey :: "server_copayer list \<Rightarrow> string" where
  "array_xPubKey copayers = ''undefined''"

text \<open>
  The body of \<^verbatim>\<open>_.each(copayers, function(copayer) {...})\<close>; its state is the
  counter \<open>uniq\<close> and the flag \<open>error\<close>.
  \<^verbatim>\<open>
    if (error) return;
    if (uniq[copayers.xPubKey]++) {
      log.error('Repeated public keys in server response');
      error = true;
    }
    // Not signed pub keys
    if (!(copayer.encryptedName || copayer.name) || !copayer.xPubKey ||
        !copayer.requestPubKey || !copayer.signature) {
      log.error('Missing copayer fields in server response');
      error = true;
    } else {
      var hash = Utils.getCopayerHash(copayer.encryptedName || copayer.name,
                                      copayer.xPubKey, copayer.requestPubKey);
      if (!Utils.verifyMessage(hash, copayer.signature, walletPubKey)) {
        log.error('Invalid signatures in server response');
        error = true;
      }
    }
  \<close>
\<close>

definition each_copayer ::
  "(string \<Rightarrow> string \<Rightarrow> string \<Rightarrow> bool option) \<Rightarrow> string \<Rightarrow> server_copayer list
    \<Rightarrow> server_copayer \<Rightarrow> (string \<rightharpoonup> jsnumber) \<times> bool
    \<Rightarrow> error + (string \<rightharpoonup> jsnumber) \<times> bool" where
  "each_copayer ecdsa walletPubKey copayers copayer st =
     (case st of (uniq, err) \<Rightarrow>
        if err then Inr (uniq, err)
        else
          (case postfix_increment uniq (array_xPubKey copayers) of (uniq1, seen) \<Rightarrow>
             (let err1 = (if truthy_number seen then True else err) in
              if \<not> truthy (js_or (s_encryptedName copayer) (s_name copayer))
                 \<or> \<not> truthy (s_xPubKey copayer) \<or> \<not> truthy (s_requestPubKey copayer)
                 \<or> \<not> truthy (s_signature copayer)
              then Inr (uniq1, True)
              else
                (case verifyMessage ecdsa
                        (getCopayerHash (js_or (s_encryptedName copayer) (s_name copayer))
                           (s_xPubKey copayer) (s_requestPubKey copayer))
                        (s_signature copayer) walletPubKey of
                   Inl e \<Rightarrow> Inl e
                 | Inr ok \<Rightarrow> Inr (uniq1, (if \<not> ok then True else err1))))))"

fun each_copayers ::
  "(string \<Rightarrow> string \<Rightarrow> string \<Rightarrow> bool option) \<Rightarrow> string \<Rightarrow> server_copayer list
    \<Rightarrow> server_copayer list \<Rightarrow> (string \<rightharpoonup> jsnumber) \<times> bool
    \<Rightarrow> error + (string \<rightharpoonup> jsnumber) \<times> bool" where
  "each_copayers ecdsa walletPubKey copayers [] st = Inr st"
| "each_copayers ecdsa walletPubKey copayers (copayer # rest) st =
     (case each_copayer ecdsa walletPubKey copayers copayer st of
        Inl e \<Rightarrow> Inl e
      | Inr st1 \<Rightarrow> each_copayers ecdsa walletPubKey copayers rest st1)"

text \<open>
  \<open>toPublicKey\<close> stands for
  \<^verbatim>\<open>Bitcore.PrivateKey.fromString(k).toPublicKey().toString()\<close>, \<open>None\<close> when it
  throws.
  \<^verbatim>\<open>
  Verifier.checkCopayers = function(copayer, copayers) {
    $.checkState(copayer.walletPrivKey);
    var walletPubKey = Bitcore.PrivateKey.fromString(copayer.walletPrivKey)
                         .toPublicKey().toString();
    if (copayers.length != copayer.n) return false;
    var uniq = [];
    var error;
    _.each(copayers, ...);
    if (error) return false;
    if (!_.includes(_.map(copayers, 'xPubKey'), copayer.xPubKey)) return false;
    return true;
  };
  \<close>
\<close>

definition checkCopayers ::
  "(string \<Rightarrow> string option) \<Rightarrow> (string \<Rightarrow> string \<Rightarrow> string \<Rightarrow> bool option)
    \<Rightarrow> copayer \<Rightarrow> server_copayer list \<Rightarrow> error + bool" where
  "checkCopayers toPublicKey ecdsa copayer copayers =
     (if \<not> truthy (c_walletPrivKey copayer) then Inl InvalidState
      else
        (case toPublicKey (the (c_walletPrivKey copayer)) of
           None \<Rightarrow> Inl LibraryError
         | Some walletPubKey \<Rightarrow>
             (if Some (int (length copayers)) \<noteq> c_n copayer then Inr False
              else
                (case each_copayers ecdsa walletPubKey copayers copayers (Map.empty, False) of
                   Inl e \<Rightarrow> Inl e
                 | Inr (uniq, err) \<Rightarrow>
                     (if err then Inr False
                      else if c_xPubKey copayer \<notin> set (map s_xPubKey copayers) then Inr False
                      else Inr True)))))"

section \<open>Device\<close>

text \<open>
  A Device: the fields of \<^verbatim>\<open>FIELDS\<close> in device.js, and \<open>externalSource\<close>, which
  \<^verbatim>\<open>Device.fromExtendedPublicKey\<close> sets and \<^verbatim>\<open>FIELDS\<close> does not list. Every
  constructor and \<^verbatim>\<open>fromObj\<close> set \<open>copayers\<close> to an array.
\<close>

record device =
  d_coin :: "string option"
  d_network :: "string option"
  d_derivationStrategy :: "string option"
  d_xPrivKey :: "string option"
  d_xPubKey :: "string option"
  d_xPrivKeyEncrypted :: "string option"
  d_mnemonic :: "string option"
  d_mnemonicEncrypted :: "string option"
  d_mnemonicHasPassphrase :: "bool option"
  d_requestPrivKey :: "string option"
  d_requestPubKey :: "string option"
  d_personalEncryptingKey :: "string option"
  d_entropySource :: "string option"
  d_deviceId :: "string option"
  d_devicePubKey :: "string option"
  d_copayers :: "copayer list"
  d_externalSource :: "string option"

text \<open>
  The external collaborators of device.js and copayer.js. An HD private key object is
  known by a string (a handle); buffers are strings of bytes.
\<close>

record ext =
  ext_fromString :: "string \<Rightarrow> string option"
    \<comment> \<open>\<^verbatim>\<open>Bitcore.HDPrivateKey.fromString(s)\<close>, \<open>None\<close> when it throws\<close>
  ext_HDPrivateKey :: "string option \<Rightarrow> string option \<Rightarrow> string option"
    \<comment> \<open>\<^verbatim>\<open>new Bitcore.HDPrivateKey(arg, network)\<close>, \<open>None\<close> when it throws\<close>
  ext_deriveChild :: "string \<Rightarrow> string \<Rightarrow> string option"
    \<comment> \<open>\<^verbatim>\<open>key.deriveChild(path)\<close>, \<open>None\<close> when it throws\<close>
  ext_hdPublicKey :: "string \<Rightarrow> string"
    \<comment> \<open>\<^verbatim>\<open>key.hdPublicKey.toString()\<close>\<close>
  ext_privateKey :: "string \<Rightarrow> string"
    \<comment> \<open>\<^verbatim>\<open>key.privateKey.toString()\<close>\<close>
  ext_publicKey :: "string \<Rightarrow> string"
    \<comment> \<open>\<^verbatim>\<open>key.publicKey.toString()\<close>\<close>
  ext_sha256_privateKey :: "string \<Rightarrow> string"
    \<comment> \<open>\<^verbatim>\<open>Bitcore.crypto.Hash.sha256(key.privateKey.toBuffer()).toString('hex')\<close>\<close>
  ext_sha256hmac :: "string \<Rightarrow> string \<Rightarrow> string"
    \<comment> \<open>\<^verbatim>\<open>Bitcore.crypto.Hash.sha256hmac(new Buffer(hex, 'hex'), new Buffer(prefix))\<close>\<close>
  ext_PrivateKey :: "string \<Rightarrow> string \<Rightarrow> (string \<times> string) option"
    \<comment> \<open>\<^verbatim>\<open>new Bitcore.PrivateKey(seed.toString('hex'), network)\<close>: its \<^verbatim>\<open>toString()\<close>
       and its \<^verbatim>\<open>toPublicKey().toString()\<close>; \<open>None\<close> when it throws\<close>
  ext_base64 :: "string \<Rightarrow> string"
    \<comment> \<open>\<^verbatim>\<open>buffer.toString('base64')\<close>\<close>
  ext_hexToBase64 :: "string \<Rightarrow> string"
    \<comment> \<open>\<^verbatim>\<open>Buffer.from(pub, 'hex').toString('base64')\<close>\<close>
  ext_getChash160 :: "string \<Rightarrow> string"
    \<comment> \<open>\<^verbatim>\<open>ObjectHash.getChash160(pubkey)\<close>\<close>
  ext_privateKeyToAESKey :: "string \<Rightarrow> string option"
    \<comment> \<open>\<^verbatim>\<open>Utils.privateKeyToAESKey\<close>, \<open>None\<close> when the key is not valid\<close>
  ext_xPubToCopayerId :: "string \<Rightarrow> string"
    \<comment> \<open>\<^verbatim>\<open>Utils.xPubToCopayerId\<close>: sha256 of the key, in base64\<close>
  ext_sjcl_encrypt :: "jsval option \<Rightarrow> string \<Rightarrow> string \<Rightarrow> string"
    \<comment> \<open>\<^verbatim>\<open>sjcl.encrypt(password, plaintext, opts)\<close>, as \<open>opts password plaintext\<close>;
       the salt and the iv it draws count as part of \<open>opts\<close>\<close>
  ext_sjcl_decrypt :: "string \<Rightarrow> string \<Rightarrow> string option"
    \<comment> \<open>\<^verbatim>\<open>sjcl.decrypt(password, cyphertext)\<close>, \<open>None\<close> when it throws\<close>
  ext_Number_toString :: "int \<Rightarrow> string"
    \<comment> \<open>what JavaScript writes for a number beyond the safe integers, where it rounds
       the digits and, from 10^21 on, writes an exponent\<close>

text \<open>\<^verbatim>\<open>Constants.PATHS\<close>; the apostrophe marks a hardened index.\<close>

definition apostrophe :: string where
  "apostrophe = [CHR 0x27]"









section \<open>Encrypting and decrypting the private key of a Device\<close>

text \<open>
  The two methods change the device and may throw after they have changed it, so
  they return the error, if any, together with the device as it is left.
  \<^verbatim>\<open>
  Device.prototype.encryptPrivateKey = function(password, opts) {
    if (this.xPrivKeyEncrypted)
      throw new Error('Private key already encrypted');
    if (!this.xPrivKey)
      throw new Error('No private key to encrypt');
    this.xPrivKeyEncrypted = sjcl.encrypt(password, this.xPrivKey, opts);
    if (!this.xPrivKeyEncrypted)
      throw new Error('Could not encrypt');
    if (this.mnemonic)
      this.mnemonicEncrypted = sjcl.encrypt(password, this.mnemonic, opts);
    delete this.xPrivKey;
    delete this.mnemonic;
  };
  \<close>
\<close>

definition encryptPrivateKey ::
  "ext \<Rightarrow> string \<Rightarrow> jsval option \<Rightarrow> device \<Rightarrow> error option \<times> device" where
  "encryptPrivateKey X password opts this =
     (if truthy (d_xPrivKeyEncrypted this)
      then (Some (Error ''Private key already encrypted''), this)
      else if \<not> truthy (d_xPrivKey this)
      then (Some (Error ''No private key to encrypt''), this)
      else
        (let this1 = this\<lparr>d_xPrivKeyEncrypted :=
                             Some (ext_sjcl_encrypt X opts password (the (d_xPrivKey this)))\<rparr>
         in if \<not> truthy (d_xPrivKeyEncrypted this1)
            then (Some (Error ''Could not encrypt''), this1)
            else
              (let this2 =
                     (if truthy (d_mnemonic this1)
                      then this1\<lparr>d_mnemonicEncrypted :=
                                   Some (ext_sjcl_encrypt X opts password
                                           (the (d_mnemonic this1)))\<rparr>
                      else this1)
               in (None, this2\<lparr>d_xPrivKey := None, d_mnemonic := None\<rparr>))))"

text \<open>
  \<^verbatim>\<open>
  Device.prototype.decryptPrivateKey = function(password) {
    if (!this.xPrivKeyEncrypted)
      throw new Error('Private key is not encrypted');
    try {
      this.xPrivKey = sjcl.decrypt(password, this.xPrivKeyEncrypted);
      if (this.mnemonicEncrypted) {
        this.mnemonic = sjcl.decrypt(password, this.mnemonicEncrypted);
      }
      delete this.xPrivKeyEncrypted;
      delete this.mnemonicEncrypted;
    } catch (ex) {
      throw new Error('Could not decrypt');
    }
  };
  \<close>
\<close>

definition decryptPrivateKey :: "ext \<Rightarrow> string \<Rightarrow> device \<Rightarrow> error option \<times> device" where
  "decryptPrivateKey X password this =
     (if \<not> truthy (d_xPrivKeyEncrypted this)
      then (Some (Error ''Private key is not encrypted''), this)
      else
        (case ext_sjcl_decrypt X password (the (d_xPrivKeyEncrypted this)) of
           None \<Rightarrow> (Some (Error ''Could not decrypt''), this)
         | Some xPrivKey \<Rightarrow>
             (let this1 = this\<lparr>d_xPrivKey := Some xPrivKey\<rparr>
              in if truthy (d_mnemonicEncrypted this1) then
                   (case ext_sjcl_decrypt X password (the (d_mnemonicEncrypted this1)) of
                      None \<Rightarrow> (Some (Error ''Could not decrypt''), this1)
                    | Some mnemonic \<Rightarrow>
                        (None, this1\<lparr>d_mnemonic := Some mnemonic,
                                     d_xPrivKeyEncrypted := None,
                                     d_mnemonicEncrypted := None\<rparr>))
                 else (None, this1\<lparr>d_xPrivKeyEncrypted := None,
                                   d_mnemonicEncrypted := None\<rparr>))))"

text \<open>
  A device in the Decrypted state: it holds the private key in the clear and nothing
  encrypted, and its mnemonic is absent or a phrase (not the empty string).
\<close>

definition holds_plaintext_key :: "device \<Rightarrow> bool" where
  "holds_plaintext_key this =
     (truthy (d_xPrivKey this) \<and> d_xPrivKeyEncrypted this = None
      \<and> d_mnemonicEncrypted this = None
      \<and> (d_mnemonic this = None \<or> truthy (d_mnemonic this)))"

text \<open>
  What the development assumes of sjcl: a cyphertext is not the empty string, and
  decrypting it with the password it was made with gives the plaintext back.
\<close>

definition sjcl_inverts :: "ext \<Rightarrow> jsval option \<Rightarrow> string \<Rightarrow> string \<Rightarrow> bool" where
  "sjcl_inverts X opts password plaintext =
     (ext_sjcl_encrypt X opts password plaintext \<noteq> []
      \<and> ext_sjcl_decrypt X password (ext_sjcl_encrypt X opts password plaintext)
          = Some plaintext)"

section \<open>Persisting a Device: fromObj, toObj, export and import\<close>

text \<open>
  A plain object with the fields of a Copayer or of a Device is a record of the same
  type. \<^verbatim>\<open>JSON.parse(JSON.stringify(x))\<close> gives back such an object as it is (absent
  fields stay absent), so the exported string is the object.
  \<^verbatim>\<open>
  Copayer.fromObj = function(obj) {
    var x = new Copayer();
    _.each(FIELDS, function(k) { x[k] = obj[k]; });
    x.account = x.account || 0;
    x.addressType = x.addressType || Constants.ADDRESS_TYPES.NORMAL;
    $.checkState(x.xPubKey, "invalid input");
    return x;
  };
  \<close>
\<close>

definition Copayer_defaults :: "copayer \<Rightarrow> copayer" where
  "Copayer_defaults obj =
     obj\<lparr>c_account := (if truthy_num (c_account obj) then c_account obj else Some 0),
         c_addressType := js_or (c_addressType obj) (Some ''normal'')\<rparr>"

definition Copayer_fromObj :: "copayer \<Rightarrow> error + copayer" where
  "Copayer_fromObj obj =
     (let x = Copayer_defaults obj
      in if \<not> truthy (c_xPubKey x) then Inl InvalidState else Inr x)"

text \<open>
  \<^verbatim>\<open>
  var copayers = [];
  _.map(x.copayers, function (copayer) {
    copayers.push(Copayer.fromObj(copayer));
  });
  \<close>
\<close>

fun fromObj_copayers :: "copayer list \<Rightarrow> error + copayer list" where
  "fromObj_copayers [] = Inr []"
| "fromObj_copayers (copayer # rest) =
     (case Copayer_fromObj copayer of
        Inl e \<Rightarrow> Inl e
      | Inr x \<Rightarrow>
          (case fromObj_copayers rest of
             Inl e \<Rightarrow> Inl e
           | Inr xs \<Rightarrow> Inr (x # xs)))"

text \<open>
  \<^verbatim>\<open>
  Device.fromObj = function(obj) {
    var x = new Device();
    _.each(FIELDS, function(k) { x[k] = obj[k]; });
    x.coin = x.coin || 'obyte';
    x.network = x.network || 'livenet';
    x.derivationStrategy = x.derivationStrategy || Constants.DERIVATION_STRATEGIES.BIP44;
    ...
    x.copayers = copayers;
    return x;
  };
  \<close>
  Only the fields of \<^verbatim>\<open>FIELDS\<close> are copied: the new device has no
  \<open>externalSource\<close>.
\<close>

definition Device_defaults :: "device \<Rightarrow> device" where
  "Device_defaults obj =
     obj\<lparr>d_coin := js_or (d_coin obj) (Some ''obyte''),
         d_network := js_or (d_network obj) (Some ''livenet''),
         d_derivationStrategy := js_or (d_derivationStrategy obj) (Some ''BIP44''),
         d_externalSource := None\<rparr>"

definition Device_fromObj :: "device \<Rightarrow> error + device" where
  "Device_fromObj obj =
     (case fromObj_copayers (d_copayers obj) of
        Inl e \<Rightarrow> Inl e
      | Inr copayers \<Rightarrow> Inr ((Device_defaults obj)\<lparr>d_copayers := copayers\<rparr>))"

text \<open>
  \<^verbatim>\<open>
  Device.prototype.toObj = function() {
    var self = this;
    var x = {};
    _.each(FIELDS, function(k) { x[k] = self[k]; });
    return x;
  };
  \<close>
\<close>

definition toObj :: "device \<Rightarrow> device" where
  "toObj self = self\<lparr>d_externalSource := None\<rparr>"

text \<open>
  \<^verbatim>\<open>
  Device.prototype.setNoSign = function() {
    delete this.xPrivKey;
    delete this.xPrivKeyEncrypted;
    delete this.mnemonic;
    delete this.mnemonicEncrypted;
  };
  \<close>
\<close>

definition setNoSign :: "device \<Rightarrow> device" where
  "setNoSign this =
     this\<lparr>d_xPrivKey := None, d_xPrivKeyEncrypted := None,
          d_mnemonic := None, d_mnemonicEncrypted := None\<rparr>"

text \<open>The client, as far as export and import read and write it.\<close>

record api =
  api_device :: "device option"
  api_copayer :: "copayer option"

record export_opts =
  eo_password :: "string option"
  eo_noSign :: bool

text \<open>
  \<^verbatim>\<open>
  API.prototype.export = function(opts) {
    $.checkState(this.device);
    opts = opts || {};
    var output;
    var d = Device.fromObj(this.device);
    if (opts.noSign) {
      d.setNoSign();
    } else if (opts.password) {
      d.decryptPrivateKey(opts.password);
    }
    output = JSON.stringify(d.toObj());
    return output;
  };
  \<close>
\<close>

definition API_export :: "ext \<Rightarrow> export_opts \<Rightarrow> api \<Rightarrow> error + device" where
  "API_export X opts this =
     (case api_device this of
        None \<Rightarrow> Inl InvalidState
      | Some dev \<Rightarrow>
          (case Device_fromObj dev of
             Inl e \<Rightarrow> Inl e
           | Inr d \<Rightarrow>
               (if eo_noSign opts then Inr (toObj (setNoSign d))
                else if truthy (eo_password opts) then
                  (case decryptPrivateKey X (the (eo_password opts)) d of
                     (Some e, d') \<Rightarrow> Inl e
                   | (None, d') \<Rightarrow> Inr (toObj d'))
                else Inr (toObj d))))"

text \<open>
  \<^verbatim>\<open>
  API.prototype.import = function(str) {
    try {
      this.device = Device.fromObj(JSON.parse(str));
      if (!_.isEmpty(this.device.copayers))
        this.copayer = this.device.copayers[0];
    } catch (ex) {
      throw new Errors.INVALID_BACKUP;
    }
  };
  \<close>
\<close>

definition API_import :: "device \<Rightarrow> api \<Rightarrow> error + api" where
  "API_import str this =
     (case Device_fromObj str of
        Inl e \<Rightarrow> Inl (Error ''INVALID_BACKUP'')
      | Inr d \<Rightarrow>
          Inr (this\<lparr>api_device := Some d,
                    api_copayer := (case d_copayers d of
                                      [] \<Rightarrow> api_copayer this
                                    | c # cs \<Rightarrow> Some c)\<rparr>))"

section \<open>Copayers of a Device: getKeys, getDerivedXPrivKey, getCopayer, addCopayer\<close>

text \<open>
  \<^verbatim>\<open>
  Device.prototype.isPrivKeyEncrypted = function() {
    return (!!this.xPrivKeyEncrypted) && !this.xPrivKey;
  };
  \<close>
\<close>

definition isPrivKeyEncrypted :: "device \<Rightarrow> bool" where
  "isPrivKeyEncrypted this = (truthy (d_xPrivKeyEncrypted this) \<and> \<not> truthy (d_xPrivKey this))"

text \<open>
  \<^verbatim>\<open>
  Device.prototype.getKeys = function(password) {
    var keys = {};
    if (this.isPrivKeyEncrypted()) {
      $.checkArgument(password, 'Private keys are encrypted, a password is needed');
      try {
        keys.xPrivKey = sjcl.decrypt(password, this.xPrivKeyEncrypted);
        if (this.mnemonicEncrypted) {
          keys.mnemonic = sjcl.decrypt(password, this.mnemonicEncrypted);
        }
      } catch (ex) {
        throw new Error('Could not decrypt');
      }
    } else {
      keys.xPrivKey = this.xPrivKey;
      keys.mnemonic = this.mnemonic;
    }
    return keys;
  };
  \<close>
  The result is the pair of \<open>keys.xPrivKey\<close> and \<open>keys.mnemonic\<close>.
\<close>

definition getKeys ::
  "ext \<Rightarrow> string option \<Rightarrow> device \<Rightarrow> error + string option \<times> string option" where
  "getKeys X password this =
     (if isPrivKeyEncrypted this then
        (if \<not> truthy password then Inl InvalidArgument
         else
           (case ext_sjcl_decrypt X (the password) (the (d_xPrivKeyEncrypted this)) of
              None \<Rightarrow> Inl (Error ''Could not decrypt'')
            | Some xPrivKey \<Rightarrow>
                (if truthy (d_mnemonicEncrypted this) then
                   (case ext_sjcl_decrypt X (the password) (the (d_mnemonicEncrypted this)) of
                      None \<Rightarrow> Inl (Error ''Could not decrypt'')
                    | Some mnemonic \<Rightarrow> Inr (Some xPrivKey, Some mnemonic))
                 else Inr (Some xPrivKey, None))))
      else Inr (d_xPrivKey this, d_mnemonic this))"

text \<open>
  \<^verbatim>\<open>
  Device.prototype.getBaseDerivationPath = function(account) {
    $.shouldBeNumber(account);
    var purpose;
    switch (this.derivationStrategy) {
      case Constants.DERIVATION_STRATEGIES.BIP45:
        return "m/45'";
      case Constants.DERIVATION_STRATEGIES.BIP44:
        purpose = '44';
        break;
      case Constants.DERIVATION_STRATEGIES.BIP48:
        purpose = '48';
        break;
    }
    var coin = '0';
    if (this.network != 'livenet' ) {
      coin = '1';
    }
    return "m/" + purpose + "'/" + coin + "'/" + account + "'";
  };
  \<close>
  An account is an integer here, so \<^verbatim>\<open>$.shouldBeNumber\<close> passes. With any other
  strategy \<open>purpose\<close> stays \<^verbatim>\<open>undefined\<close> and is joined as that word.

  Joined to a string, a number is written by \<^verbatim>\<open>Number.prototype.toString\<close>: a
  safe integer (at most 2^53 - 1 in absolute value) with all its decimal digits, a
  larger one with rounded digits or in exponent form, which is left to the
  collaborator.
\<close>

definition Number_toString :: "ext \<Rightarrow> int \<Rightarrow> string" where
  "Number_toString X i =
     (if \<bar>i\<bar> \<le> 9007199254740991 then string_of_int i else ext_Number_toString X i)"

definition getBaseDerivationPath :: "ext \<Rightarrow> device \<Rightarrow> int \<Rightarrow> string" where
  "getBaseDerivationPath X this account =
     (if d_derivationStrategy this = Some ''BIP45'' then ''m/45'' @ apostrophe
      else
        (let purpose =
               (if d_derivationStrategy this = Some ''BIP44'' then ''44''
                else if d_derivationStrategy this = Some ''BIP48'' then ''48''
                else ''undefined'');
             coin = (if d_network this \<noteq> Some ''livenet'' then ''1'' else ''0'')
         in ''m/'' @ purpose @ apostrophe @ ''/'' @ coin @ apostrophe @ ''/''
              @ Number_toString X account @ apostrophe))"

text \<open>
  \<^verbatim>\<open>
  Device.prototype.getDerivedXPrivKey = function(account, password) {
    var path = this.getBaseDerivationPath(account);
    var xPrivKey = new Bitcore.HDPrivateKey(this.getKeys(password).xPrivKey, this.network);
    var deriveFn = _.bind(xPrivKey.deriveChild, xPrivKey);
    return deriveFn(path);
  };
  \<close>
\<close>

definition getDerivedXPrivKey :: "ext \<Rightarrow> int \<Rightarrow> string option \<Rightarrow> device \<Rightarrow> error + string" where
  "getDerivedXPrivKey X account password this =
     (let path = getBaseDerivationPath X this account
      in case getKeys X password this of
           Inl e \<Rightarrow> Inl e
         | Inr (keys_xPrivKey, keys_mnemonic) \<Rightarrow>
             (case ext_HDPrivateKey X keys_xPrivKey (d_network this) of
                None \<Rightarrow> Inl LibraryError
              | Some xPrivKey \<Rightarrow>
                  (case ext_deriveChild X xPrivKey path of
                     None \<Rightarrow> Inl LibraryError
                   | Some derived \<Rightarrow> Inr derived)))"

text \<open>
  \<^verbatim>\<open>function Copayer() { this.version = 1; this.account = 0; };\<close>
\<close>

definition new_Copayer :: copayer where
  "new_Copayer =
     \<lparr>c_account = Some 0, c_copayerId = None, c_copayerName = None, c_xPubKey = None,
      c_walletId = None, c_walletName = None, c_m = None, c_n = None,
      c_publicKeyRing = None, c_walletPrivKey = None, c_sharedEncryptingKey = None,
      c_addressType = None\<rparr>"

text \<open>
  \<^verbatim>\<open>
  Copayer.prototype.addWalletPrivateKey = function(walletPrivKey) {
    this.walletPrivKey = walletPrivKey;
    this.sharedEncryptingKey = Utils.privateKeyToAESKey(walletPrivKey);
  };
  \<close>
\<close>

definition addWalletPrivateKey :: "ext \<Rightarrow> string \<Rightarrow> copayer \<Rightarrow> error + copayer" where
  "addWalletPrivateKey X walletPrivKey this =
     (case ext_privateKeyToAESKey X walletPrivKey of
        None \<Rightarrow> Inl InvalidArgument
      | Some key \<Rightarrow>
          Inr (this\<lparr>c_walletPrivKey := Some walletPrivKey,
                    c_sharedEncryptingKey := Some key\<rparr>))"

text \<open>
  \<^verbatim>\<open>
  Copayer.prototype._expand = function(deviceId) {
    $.checkState(this.xPubKey);
    this.copayerId = Utils.xPubToCopayerId(this.xPubKey);
    this.publicKeyRing = [{
      xPubKey: this.xPubKey,
      requestPubKey: this.requestPubKey,
      deviceId: deviceId,
      account: this.account,
    }];
  };
  \<close>
  A Copayer has no field \<open>requestPubKey\<close>, so the entry's is absent.
\<close>

definition Copayer_expand :: "ext \<Rightarrow> string option \<Rightarrow> copayer \<Rightarrow> error + copayer" where
  "Copayer_expand X deviceId this =
     (if \<not> truthy (c_xPubKey this) then Inl InvalidState
      else
        Inr (this\<lparr>c_copayerId := Some (ext_xPubToCopayerId X (the (c_xPubKey this))),
                  c_publicKeyRing :=
                    Some [\<lparr>k_xPubKey = c_xPubKey this, k_requestPubKey = None,
                           k_deviceId = deviceId, k_account = c_account this\<rparr>]\<rparr>))"

record copayer_opts =
  co_password :: "string option"
  co_walletPrivKey :: "string option"

text \<open>
  \<^verbatim>\<open>
  Copayer.fromExtendedPublicKey = function(deviceId, xPubKey, account, opts) {
    $.shouldBeNumber(account);
    opts = opts || {};
    var x = new Copayer();
    x.xPubKey = xPubKey;
    x.account = account;
    if (opts.walletPrivKey) {
      x.addWalletPrivateKey(opts.walletPrivKey);
    }
    x._expand(deviceId);
    return x;
  };
  \<close>
\<close>

definition Copayer_fromExtendedPublicKey ::
  "ext \<Rightarrow> string option \<Rightarrow> string \<Rightarrow> int \<Rightarrow> copayer_opts \<Rightarrow> error + copayer" where
  "Copayer_fromExtendedPublicKey X deviceId xPubKey account opts =
     (let x = new_Copayer\<lparr>c_xPubKey := Some xPubKey, c_account := Some account\<rparr>
      in if truthy (co_walletPrivKey opts) then
           (case addWalletPrivateKey X (the (co_walletPrivKey opts)) x of
              Inl e \<Rightarrow> Inl e
            | Inr x1 \<Rightarrow> Copayer_expand X deviceId x1)
         else Copayer_expand X deviceId x)"

text \<open>
  \<^verbatim>\<open>account in accounts\<close>, for a number and an array without holes: the operator
  asks whether the array has a property of that name, and the number names one exactly
  when it is an index of the array.
\<close>

definition js_in :: "int \<Rightarrow> 'a list \<Rightarrow> bool" where
  "js_in key xs = (0 \<le> key \<and> key < int (length xs))"

text \<open>
  \<^verbatim>\<open>
  Device.prototype.getCopayer = function(account) {
    account = account || 0;
    var accounts = _.map(this.copayers, function (item) { return item.account; });
    if (account in accounts) {
      var ind = accounts.indexOf(account);
      return this.copayers[ind];
    } else {
      return null;
    }
  }
  \<close>
  \<open>None\<close> is \<^verbatim>\<open>null\<close>, and also the \<^verbatim>\<open>undefined\<close> that \<^verbatim>\<open>copayers[-1]\<close> is
  when \<^verbatim>\<open>indexOf\<close> finds nothing.
\<close>

definition getCopayer :: "int option \<Rightarrow> device \<Rightarrow> copayer option" where
  "getCopayer account this =
     (let account1 = (if truthy_num account then the account else 0);
          accounts = map c_account (d_copayers this)
      in if js_in account1 accounts
         then find (\<lambda>item. c_account item = Some account1) (d_copayers this)
         else None)"

text \<open>
  \<^verbatim>\<open>
  Device.prototype.addCopayer = function(account, opts) {
    opts = opts || {};
    var accounts = _.map(this.copayers, function (item) { return item.account; });
    if (account in accounts) {
      console.log('duplicate account');
      return null;
    } else {
      var xPriv = this.getDerivedXPrivKey(account, opts.password);
      var xPub = xPriv.hdPublicKey.toString();
      var copayer = Copayer.fromExtendedPublicKey(this.deviceId, xPub, account, opts);
      this.copayers.push(copayer);
      return copayer;
    }
  }
  \<close>
  The result is what is returned (\<open>None\<close> for \<^verbatim>\<open>null\<close>) and the device as it is left.
\<close>

definition addCopayer ::
  "ext \<Rightarrow> int \<Rightarrow> copayer_opts \<Rightarrow> device \<Rightarrow> error + copayer option \<times> device" where
  "addCopayer X account opts this =
     (let accounts = map c_account (d_copayers this)
      in if js_in account accounts then Inr (None, this)
         else
           (case getDerivedXPrivKey X account (co_password opts) this of
              Inl e \<Rightarrow> Inl e
            | Inr xPriv \<Rightarrow>
                (case Copayer_fromExtendedPublicKey X (d_deviceId this)
                        (ext_hdPublicKey X xPriv) account opts of
                   Inl e \<Rightarrow> Inl e
                 | Inr copayer \<Rightarrow>
                     Inr (Some copayer,
                          this\<lparr>d_copayers := d_copayers this @ [copayer]\<rparr>))))"

section \<open>Stand-ins for the external collaborators\<close>

text \<open>
  Closed statements need the collaborators at concrete values. \<open>toy_decrypt\<close> reads a
  cyphertext that is the key followed by the plaintext, and throws on any other.
\<close>

definition toy_decrypt :: "string \<Rightarrow> string \<Rightarrow> string option" where
  "toy_decrypt key cyphertext =
     (if take (length key) cyphertext = key then Some (drop (length key) cyphertext) else None)"

text \<open>
  \<open>toy_hdDerive\<close> appends the path to the extended key; \<open>toy_chash\<close> writes the
  definition out, so that different definitions have different addresses.
\<close>

definition toy_hdDerive :: "string option \<Rightarrow> string option \<Rightarrow> string option" where
  "toy_hdDerive xPubKey path =
     (case (xPubKey, path) of
        (Some k, Some p) \<Rightarrow> Some (k @ ''/'' @ p)
      | _ \<Rightarrow> None)"

fun toy_chash :: "defn \<Rightarrow> string" where
  "toy_chash (Sig pubkey) = ''sig('' @ pubkey @ '')''"
| "toy_chash (ROfSet m ds) =
     ''r of set('' @ (case m of None \<Rightarrow> [] | Some i \<Rightarrow> string_of_int i) @ '':''
        @ concat (map toy_chash ds) @ '')''"

definition toy_ring_entry :: "string \<Rightarrow> pkr_entry" where
  "toy_ring_entry k =
     \<lparr>k_xPubKey = Some k, k_requestPubKey = None, k_deviceId = None, k_account = Some 0\<rparr>"

text \<open>A complete Copayer of a 1-of-1 wallet.\<close>

definition toy_copayer :: copayer where
  "toy_copayer =
     \<lparr>c_account = Some 0, c_copayerId = Some ''id'', c_copayerName = Some ''me'',
      c_xPubKey = Some ''K'', c_walletId = Some ''w'', c_walletName = Some ''wallet'',
      c_m = Some 1, c_n = Some 1, c_publicKeyRing = Some [toy_ring_entry ''K''],
      c_walletPrivKey = None, c_sharedEncryptingKey = None,
      c_addressType = Some ''normal''\<rparr>"

text \<open>
  A signature of the toy scheme is the signed text followed by the public key; the
  public key of a private key is the key with a prefix.
\<close>

definition toy_toPublicKey :: "string \<Rightarrow> string option" where
  "toy_toPublicKey privKey = Some (''pub:'' @ privKey)"

definition toy_ecdsa :: "string \<Rightarrow> string \<Rightarrow> string \<Rightarrow> bool option" where
  "toy_ecdsa text signature pubKey = Some (signature = text @ ''/signed for/'' @ pubKey)"

text \<open>
  Toy collaborators of the Device: every function writes its arguments out, so that
  different inputs give different outputs. A cyphertext of the toy sjcl is the password,
  a colon and the plaintext.
\<close>

definition toy_ext :: ext where
  "toy_ext =
     \<lparr>ext_fromString = (\<lambda>s. if take 4 s = ''xprv'' \<or> take 4 s = ''tprv'' then Some s else None),
      ext_HDPrivateKey =
        (\<lambda>arg network. case arg of
             None \<Rightarrow> None
           | Some s \<Rightarrow> if take 4 s = ''xprv'' \<or> take 4 s = ''tprv'' then Some s else None),
      ext_deriveChild = (\<lambda>k path. Some (k @ '':'' @ path)),
      ext_hdPublicKey = (\<lambda>k. take 1 k @ ''pub('' @ k @ '')''),
      ext_privateKey = (\<lambda>k. ''priv('' @ k @ '')''),
      ext_publicKey = (\<lambda>k. ''pub('' @ k @ '')''),
      ext_sha256_privateKey = (\<lambda>k. ''sha256('' @ k @ '')''),
      ext_sha256hmac = (\<lambda>e prefix. ''hmac:'' @ prefix @ '':'' @ e),
      ext_PrivateKey = (\<lambda>seed network. Some (''priv['' @ seed @ '']'', ''pub['' @ seed @ '']'')),
      ext_base64 = (\<lambda>b. ''base64('' @ b @ '')''),
      ext_hexToBase64 = (\<lambda>h. ''base64('' @ h @ '')''),
      ext_getChash160 = (\<lambda>s. ''chash('' @ s @ '')''),
      ext_privateKeyToAESKey = (\<lambda>k. if k = [] then None else Some (''aes('' @ k @ '')'')),
      ext_xPubToCopayerId = (\<lambda>x. ''id('' @ x @ '')''),
      ext_sjcl_encrypt = (\<lambda>opts password plaintext. password @ '':'' @ plaintext),
      ext_sjcl_decrypt =
        (\<lambda>password cyphertext.
           if take (length password + 1) cyphertext = password @ '':''
           then Some (drop (length password + 1) cyphertext) else None),
      ext_Number_toString = (\<lambda>i. ''1e+21'')\<rparr>"



text \<open>An expanded device that holds its private key and mnemonic in the clear.\<close>

definition toy_plain_device :: device where
  "toy_plain_device =
     \<lparr>d_coin = Some ''obyte'', d_network = Some ''livenet'',
      d_derivationStrategy = Some ''BIP44'',
      d_xPrivKey = Some ''xprv1'', d_xPubKey = Some ''xpub(xprv1)'',
      d_xPrivKeyEncrypted = None,
      d_mnemonic = Some ''abandon ability able'', d_mnemonicEncrypted = None,
      d_mnemonicHasPassphrase = Some False,
      d_requestPrivKey = Some ''rpriv'', d_requestPubKey = Some ''rpub'',
      d_personalEncryptingKey = Some ''pek'',
      d_entropySource = Some ''e1e2'', d_deviceId = Some ''0DEVICE'',
      d_devicePubKey = Some ''0a0b'',
      d_copayers = [], d_externalSource = None\<rparr>"

text \<open>A device with the Copayer \<^verbatim>\<open>addCopayer(0)\<close> has just made: no wallet yet, no addressType.\<close>

definition toy_device_with_copayer :: device where
  "toy_device_with_copayer =
     toy_plain_device
       \<lparr>d_copayers :=
          [\<lparr>c_account = Some 0, c_copayerId = Some ''id(xpub44)'', c_copayerName = None,
            c_xPubKey = Some ''xpub44'', c_walletId = None, c_walletName = None,
            c_m = None, c_n = None,
            c_publicKeyRing =
              Some [\<lparr>k_xPubKey = Some ''xpub44'', k_requestPubKey = None,
                     k_deviceId = Some ''0DEVICE'', k_account = Some 0\<rparr>],
            c_walletPrivKey = None, c_sharedEncryptingKey = None,
            c_addressType = None\<rparr>]\<rparr>"

text \<open>A device whose two Copayers have the accounts 0 and 2.\<close>

definition toy_copayer_of_account :: "int \<Rightarrow> copayer" where
  "toy_copayer_of_account account =
     \<lparr>c_account = Some account, c_copayerId = Some ''id'', c_copayerName = None,
      c_xPubKey = Some ''xpub'', c_walletId = None, c_walletName = None,
      c_m = None, c_n = None, c_publicKeyRing = None,
      c_walletPrivKey = None, c_sharedEncryptingKey = None, c_addressType = None\<rparr>"

definition toy_device_0_2 :: device where
  "toy_device_0_2 =
     toy_plain_device\<lparr>d_copayers := [toy_copayer_of_account 0, toy_copayer_of_account 2]\<rparr>"

text \<open>
  A device to export: it has no coin, an external source, a Copayer fresh from
  \<^verbatim>\<open>addCopayer(0)\<close> and a Copayer that is a member of a 2-of-2 wallet.
\<close>

definition toy_fresh_copayer :: copayer where
  "toy_fresh_copayer =
     \<lparr>c_account = Some 0, c_copayerId = Some ''id(xpub44)'', c_copayerName = None,
      c_xPubKey = Some ''xpub44'', c_walletId = None, c_walletName = None,
      c_m = None, c_n = None,
      c_publicKeyRing =
        Some [\<lparr>k_xPubKey = Some ''xpub44'', k_requestPubKey = None,
               k_deviceId = Some ''0DEVICE'', k_account = Some 0\<rparr>],
      c_walletPrivKey = None, c_sharedEncryptingKey = None,
      c_addressType = None\<rparr>"

definition toy_member_copayer :: copayer where
  "toy_member_copayer =
     \<lparr>c_account = Some 1, c_copayerId = Some ''id(xpub45)'', c_copayerName = Some ''alice'',
      c_xPubKey = Some ''xpub45'', c_walletId = Some ''w1'', c_walletName = Some ''family'',
      c_m = Some 2, c_n = Some 2,
      c_publicKeyRing =
        Some [\<lparr>k_xPubKey = Some ''xpub45'', k_requestPubKey = Some ''rpub'',
               k_deviceId = Some ''0DEVICE'', k_account = Some 1\<rparr>,
              \<lparr>k_xPubKey = Some ''xpub99'', k_requestPubKey = Some ''rpub9'',
               k_deviceId = Some ''0OTHER'', k_account = Some 0\<rparr>],
      c_walletPrivKey = Some ''wk'', c_sharedEncryptingKey = Some ''aes(wk)'',
      c_addressType = Some ''shared''\<rparr>"

definition toy_device_to_export :: device where
  "toy_device_to_export =
     toy_plain_device
       \<lparr>d_coin := None,
        d_copayers := [toy_fresh_copayer, toy_member_copayer],
        d_externalSource := Some ''ledger''\<rparr>"

section \<open>Properties of checkProposalCreation\<close>

lemma check_message_customData_cong:
  assumes "t_message args = t_message args'" and "t_customData args = t_customData args'"
    and "t_message txp = t_message txp'" and "t_customData txp = t_customData txp'"
  shows "check_message_customData dec args txp key = check_message_customData dec args' txp' key"
  unfolding check_message_customData_def assms ..

text \<open>
  C1: for a payment without the spend-all flag, a server proposal whose outputs are not
  the submitted outputs as a multiset (plus one change output when there is a change
  address) is to be rejected; in particular one that replaces an output's address or
  amount. The code does not do so on this input. The submitted outputs are (B, 2)
  twice; the server answers with (A, 1) and (B, 2), so it has replaced the first output
  by one of another address and amount. No change address is involved. The loop finds
  (B, 2) for the first submitted output and removes the element at position 0, which
  is (A, 1); it finds (B, 2) again for the second and removes it; nothing remains, and
  the proposal is accepted although the two output lists are different multisets.
\<close>

theorem checkProposalCreation_accepts_substituted_output:
  "checkProposalCreation dec
     \<lparr>t_app = ''payment'',
      t_params = \<lparr>p_send_all = False, p_change_address = None,
                  p_outputs = [\<lparr>o_address = Some ''B'', o_amount = 2\<rparr>,
                               \<lparr>o_address = Some ''B'', o_amount = 2\<rparr>],
                  p_rest = None\<rparr>,
      t_message = None, t_customData = None\<rparr>
     \<lparr>t_app = ''payment'',
      t_params = \<lparr>p_send_all = False, p_change_address = None,
                  p_outputs = [\<lparr>o_address = Some ''A'', o_amount = 1\<rparr>,
                               \<lparr>o_address = Some ''B'', o_amount = 2\<rparr>],
                  p_rest = None\<rparr>,
      t_message = None, t_customData = None\<rparr>
     key = Inr True
   \<and> mset [\<lparr>o_address = Some ''A'', o_amount = 1\<rparr>, \<lparr>o_address = Some ''B'', o_amount = 2\<rparr>]
       \<noteq> mset [\<lparr>o_address = Some ''B'', o_amount = 2\<rparr>, \<lparr>o_address = Some ''B'', o_amount = (2::int)\<rparr>]"
  by (simp add: checkProposalCreation_def check_payment_def check_message_customData_def
      decryptMessage_def truthy_def strEqual_def splice_def ToIntegerOrInfinity_object_def
      isEqual_def)

text \<open>
  C9, as stated, fails: for a proposal that is not a payment the verdict also depends on
  the message of the server's proposal. With the same submitted message (none), the
  same key and the same custom data (none on both sides), a server proposal without a
  message is accepted and one with the message "hi" is rejected.
\<close>

theorem checkProposalCreation_non_payment_message_counterexample:
  "checkProposalCreation toy_decrypt
     \<lparr>t_app = ''data'',
      t_params = \<lparr>p_send_all = False, p_change_address = None, p_outputs = [], p_rest = None\<rparr>,
      t_message = None, t_customData = None\<rparr>
     \<lparr>t_app = ''data'',
      t_params = \<lparr>p_send_all = False, p_change_address = None, p_outputs = [], p_rest = None\<rparr>,
      t_message = None, t_customData = None\<rparr>
     (Some ''k'') = Inr True
   \<and> checkProposalCreation toy_decrypt
     \<lparr>t_app = ''data'',
      t_params = \<lparr>p_send_all = False, p_change_address = None, p_outputs = [], p_rest = None\<rparr>,
      t_message = None, t_customData = None\<rparr>
     \<lparr>t_app = ''data'',
      t_params = \<lparr>p_send_all = False, p_change_address = None, p_outputs = [], p_rest = None\<rparr>,
      t_message = Some ''hi'', t_customData = None\<rparr>
     (Some ''k'') = Inr False"
  by (simp add: checkProposalCreation_def check_message_customData_def decryptMessage_def
      truthy_def strEqual_def isEqual_def)

text \<open>
  C9, amended. For proposals whose app is not 'payment', the verdict is a function of
  the submitted encrypted message, the key, the message of the server's proposal and
  the custom data of the two sides: two runs that agree on these give the same
  verdict, whatever the params of the submitted arguments and of the server's
  proposals are. So a change of the params of such a proposal is never detected.
\<close>

theorem checkProposalCreation_non_payment_ignores_params:
  assumes "t_app args \<noteq> ''payment''" and "t_app args' \<noteq> ''payment''"
    and "t_message args = t_message args'" and "t_customData args = t_customData args'"
    and "t_message txp = t_message txp'" and "t_customData txp = t_customData txp'"
  shows "checkProposalCreation dec args txp key = checkProposalCreation dec args' txp' key"
  using assms check_message_customData_cong [of args args' txp txp' dec key]
  by (simp add: checkProposalCreation_def)

theorem checkProposalCreation_non_payment_ignores_params_witness:
  "checkProposalCreation toy_decrypt
     \<lparr>t_app = ''data'',
      t_params = \<lparr>p_send_all = False, p_change_address = None, p_outputs = [], p_rest = None\<rparr>,
      t_message = Some ''khello'', t_customData = Some (JNum 7)\<rparr>
     \<lparr>t_app = ''data'',
      t_params = \<lparr>p_send_all = False, p_change_address = None, p_outputs = [],
                  p_rest = Some (JStr ''genuine'')\<rparr>,
      t_message = Some ''hello'', t_customData = Some (JNum 7)\<rparr>
     (Some ''k'')
   = checkProposalCreation toy_decrypt
     \<lparr>t_app = ''data'',
      t_params = \<lparr>p_send_all = False, p_change_address = None, p_outputs = [], p_rest = None\<rparr>,
      t_message = Some ''khello'', t_customData = Some (JNum 7)\<rparr>
     \<lparr>t_app = ''data'',
      t_params = \<lparr>p_send_all = True, p_change_address = Some ''X'',
                  p_outputs = [\<lparr>o_address = Some ''A'', o_amount = 1\<rparr>],
                  p_rest = Some (JStr ''tampered'')\<rparr>,
      t_message = Some ''hello'', t_customData = Some (JNum 7)\<rparr>
     (Some ''k'')"
  by (rule checkProposalCreation_non_payment_ignores_params) simp_all

section \<open>Properties of deriveAddress\<close>

lemma shared_forEach_fst:
  "fst (shared_forEach ks ind (acc, sp)) = acc @ map Sig ks"
  by (induction ks arbitrary: ind acc sp) auto

lemma shared_forEach_other:
  "k \<notin> set ks \<Longrightarrow> snd (shared_forEach ks ind (acc, sp)) k = sp k"
  by (induction ks arbitrary: ind acc sp) auto

lemma shared_forEach_tag:
  "i < length ks \<Longrightarrow> (\<forall>j. i < j \<and> j < length ks \<longrightarrow> ks ! j \<noteq> ks ! i)
   \<Longrightarrow> snd (shared_forEach ks ind (acc, sp)) (ks ! i) = Some (''r.'' @ string_of_nat (ind + i))"
proof (induction ks arbitrary: ind acc sp i)
  case Nil
  then show ?case by simp
next
  case (Cons k ks)
  have later: "(k # ks) ! j \<noteq> (k # ks) ! i" if "i < j" "j < length (k # ks)" for j
    using Cons.prems(2) that by blast
  show ?case
  proof (cases i)
    case 0
    have "k \<notin> set ks"
    proof
      assume "k \<in> set ks"
      then obtain j where "j < length ks" "ks ! j = k" by (auto simp: in_set_conv_nth)
      with later [of "Suc j"] 0 show False by simp
    qed
    with 0 show ?thesis by (simp add: shared_forEach_other)
  next
    case (Suc i')
    with Cons.prems have "i' < length ks" by simp
    moreover have "\<forall>j. i' < j \<and> j < length ks \<longrightarrow> ks ! j \<noteq> ks ! i'"
    proof (intro allI impI)
      fix j assume "i' < j \<and> j < length ks"
      with later [of "Suc j"] Suc show "ks ! j \<noteq> ks ! i'" by simp
    qed
    ultimately have "snd (shared_forEach ks (Suc ind) (acc @ [Sig k], sp(k \<mapsto> ''r.'' @ string_of_nat ind))) (ks ! i')
        = Some (''r.'' @ string_of_nat (Suc ind + i'))"
      by (rule Cons.IH)
    with Suc show ?thesis by simp
  qed
qed

lemma derive_publicKeys_Inr:
  "(derive_publicKeys H items path = Inr keys)
   = (map (\<lambda>item. H (k_xPubKey item) path) items = map Some keys)"
proof (induction items arbitrary: keys)
  case Nil
  show ?case by auto
next
  case (Cons item items)
  show ?case
  proof (cases "H (k_xPubKey item) path")
    case None
    then show ?thesis by (cases keys) auto
  next
    case (Some pubkey)
    show ?thesis
    proof (cases keys)
      case Nil
      with Some show ?thesis by (simp split: sum.splits)
    next
      case (Cons k ks)
      with Some Cons.IH [of ks] show ?thesis by (auto split: sum.splits)
    qed
  qed
qed

lemma derive_publicKeys_length:
  "derive_publicKeys H items path = Inr keys \<Longrightarrow> length keys = length items"
  by (induction items arbitrary: keys) (auto split: option.splits sum.splits)

lemma deriveAddress_normal:
  assumes "derive_publicKeys H (map_items ring) path = Inr keys"
  shows "deriveAddress H chash walletId (Some ''normal'') ring path m =
     (case keys of
        [pubkey] \<Rightarrow> Inr \<lparr>ad_address = Some (chash (Sig pubkey)), ad_definition = Some (Sig pubkey),
                        ad_path = path, ad_signingPaths = [pubkey \<mapsto> ''r''],
                        ad_walletId = walletId\<rparr>
      | _ \<Rightarrow> Inl InvalidState)"
  using assms by (simp add: deriveAddress_def ADDRESS_TYPES_def)

lemma deriveAddress_shared:
  assumes "derive_publicKeys H (map_items ring) path = Inr keys"
  shows "deriveAddress H chash walletId (Some ''shared'') ring path m =
     Inr \<lparr>ad_address = Some (chash (ROfSet m (map Sig keys))),
          ad_definition = Some (ROfSet m (map Sig keys)),
          ad_path = path,
          ad_signingPaths = snd (shared_forEach keys 0 ([], Map.empty)),
          ad_walletId = walletId\<rparr>"
proof -
  obtain acc sp where eq: "shared_forEach keys 0 ([], Map.empty) = (acc, sp)"
    by (cases "shared_forEach keys 0 ([], Map.empty)")
  from shared_forEach_fst [of keys 0 "[]" Map.empty] eq have "acc = map Sig keys" by simp
  with assms eq show ?thesis by (simp add: deriveAddress_def ADDRESS_TYPES_def)
qed

text \<open>
  C2, as stated, fails on a ring in which two participants have the same leaf key: the
  signing paths are a table keyed by the public key, so the later participant's tag
  replaces the earlier one. With the ring [K, K] the key of participant 0 is mapped to
  "r.1", not to "r.0".
\<close>

theorem deriveAddress_duplicate_key_counterexample:
  "(case deriveAddress toy_hdDerive toy_chash (Some ''w'') (Some ''shared'')
           (Some [toy_ring_entry ''K'', toy_ring_entry ''K'']) (Some ''m/0/0'') (Some 2) of
      Inl e \<Rightarrow> None
    | Inr d \<Rightarrow> ad_signingPaths d ''K/m/0/0'') = Some ''r.1''"
  by (simp add: deriveAddress_def ADDRESS_TYPES_def map_items_def toy_ring_entry_def
      toy_hdDerive_def digit_char_def)

text \<open>
  C2, amended. Let the derivation at the path give the leaf keys \<open>keys\<close>, in ring
  order. With addressType NORMAL, deriveAddress requires exactly one key and returns
  the definition ["sig", {pubkey}], its address and the table that maps the key to
  "r"; with any other number of keys it fails. With addressType SHARED it returns
  ["r of set", {required: m, set: [["sig", {pubkey}], ...]}] with the set in ring order,
  and a table of signing paths that maps the leaf key of participant i to "r.<i>"
  (zero-based) whenever no later participant has the same leaf key: for pairwise
  different leaf keys that is every participant.
\<close>

theorem deriveAddress_definition_and_signingPaths:
  assumes "map (\<lambda>item. H (k_xPubKey item) path) (map_items ring) = map Some keys"
  shows "deriveAddress H chash walletId (Some ''normal'') ring path m =
           (case keys of
              [pubkey] \<Rightarrow>
                 Inr \<lparr>ad_address = Some (chash (Sig pubkey)), ad_definition = Some (Sig pubkey),
                      ad_path = path, ad_signingPaths = [pubkey \<mapsto> ''r''],
                      ad_walletId = walletId\<rparr>
            | _ \<Rightarrow> Inl InvalidState)
       \<and> (\<exists>signingPaths.
             deriveAddress H chash walletId (Some ''shared'') ring path m =
               Inr \<lparr>ad_address = Some (chash (ROfSet m (map Sig keys))),
                    ad_definition = Some (ROfSet m (map Sig keys)),
                    ad_path = path, ad_signingPaths = signingPaths, ad_walletId = walletId\<rparr>
           \<and> (\<forall>i. i < length keys \<and> (\<forall>j. i < j \<and> j < length keys \<longrightarrow> keys ! j \<noteq> keys ! i)
                  \<longrightarrow> signingPaths (keys ! i) = Some (''r.'' @ string_of_nat i)))"
proof -
  from assms have d: "derive_publicKeys H (map_items ring) path = Inr keys"
    by (simp add: derive_publicKeys_Inr)
  have tags: "\<forall>i. i < length keys \<and> (\<forall>j. i < j \<and> j < length keys \<longrightarrow> keys ! j \<noteq> keys ! i)
      \<longrightarrow> snd (shared_forEach keys 0 ([], Map.empty)) (keys ! i) = Some (''r.'' @ string_of_nat i)"
    using shared_forEach_tag [of _ keys 0 "[]" Map.empty] by simp
  show ?thesis
    using deriveAddress_normal [OF d] deriveAddress_shared [OF d] tags by blast
qed

lemma toy_keys3:
  "map (\<lambda>item. toy_hdDerive (k_xPubKey item) (Some ''m/0/0''))
      (map_items (Some [toy_ring_entry ''K0'', toy_ring_entry ''K1'', toy_ring_entry ''K2'']))
   = map Some [''K0/m/0/0'', ''K1/m/0/0'', ''K2/m/0/0'']"
  by (simp add: map_items_def toy_ring_entry_def toy_hdDerive_def)

theorem deriveAddress_definition_and_signingPaths_witness:
  "deriveAddress toy_hdDerive toy_chash (Some ''w'') (Some ''normal'')
     (Some [toy_ring_entry ''K0'', toy_ring_entry ''K1'', toy_ring_entry ''K2''])
     (Some ''m/0/0'') (Some 2) = Inl InvalidState
   \<and> (\<exists>signingPaths.
        deriveAddress toy_hdDerive toy_chash (Some ''w'') (Some ''shared'')
          (Some [toy_ring_entry ''K0'', toy_ring_entry ''K1'', toy_ring_entry ''K2''])
          (Some ''m/0/0'') (Some 2)
        = Inr \<lparr>ad_address = Some ''r of set(2:sig(K0/m/0/0)sig(K1/m/0/0)sig(K2/m/0/0))'',
               ad_definition = Some (ROfSet (Some 2)
                  [Sig ''K0/m/0/0'', Sig ''K1/m/0/0'', Sig ''K2/m/0/0'']),
               ad_path = Some ''m/0/0'', ad_signingPaths = signingPaths,
               ad_walletId = Some ''w''\<rparr>
      \<and> signingPaths ''K0/m/0/0'' = Some ''r.0''
      \<and> signingPaths ''K1/m/0/0'' = Some ''r.1''
      \<and> signingPaths ''K2/m/0/0'' = Some ''r.2'')"
proof -
  let ?keys = "[''K0/m/0/0'', ''K1/m/0/0'', ''K2/m/0/0'']"
  note main = deriveAddress_definition_and_signingPaths
    [where H = toy_hdDerive and path = "Some ''m/0/0''" and keys = ?keys
       and ring = "Some [toy_ring_entry ''K0'', toy_ring_entry ''K1'', toy_ring_entry ''K2'']"
       and chash = toy_chash and walletId = "Some ''w''" and m = "Some 2", OF toy_keys3]
  from main have normal: "deriveAddress toy_hdDerive toy_chash (Some ''w'') (Some ''normal'')
     (Some [toy_ring_entry ''K0'', toy_ring_entry ''K1'', toy_ring_entry ''K2''])
     (Some ''m/0/0'') (Some 2) = Inl InvalidState" by simp
  from main obtain sp where
    eq: "deriveAddress toy_hdDerive toy_chash (Some ''w'') (Some ''shared'')
          (Some [toy_ring_entry ''K0'', toy_ring_entry ''K1'', toy_ring_entry ''K2''])
          (Some ''m/0/0'') (Some 2)
        = Inr \<lparr>ad_address = Some (toy_chash (ROfSet (Some 2) (map Sig ?keys))),
               ad_definition = Some (ROfSet (Some 2) (map Sig ?keys)),
               ad_path = Some ''m/0/0'', ad_signingPaths = sp, ad_walletId = Some ''w''\<rparr>"
    and tags: "\<forall>i. i < length ?keys \<and> (\<forall>j. i < j \<and> j < length ?keys \<longrightarrow> ?keys ! j \<noteq> ?keys ! i)
                  \<longrightarrow> sp (?keys ! i) = Some (''r.'' @ string_of_nat i)"
    by blast
  have later: "(\<forall>j. i < j \<and> j < length ?keys \<longrightarrow> ?keys ! j \<noteq> ?keys ! i)" if "i < 3" for i
  proof (intro allI impI)
    fix j assume "i < j \<and> j < length ?keys"
    then have "j = 1 \<or> j = 2" "i < j" by auto
    then show "?keys ! j \<noteq> ?keys ! i" by (auto simp: less_Suc_eq numeral_2_eq_2)
  qed
  have t0: "sp ''K0/m/0/0'' = Some ''r.0''"
    using tags [rule_format, of 0] later [of 0] by (simp add: digit_char_def)
  have t1: "sp ''K1/m/0/0'' = Some ''r.1''"
    using tags [rule_format, of 1] later [of 1] by (simp add: digit_char_def)
  have t2: "sp ''K2/m/0/0'' = Some ''r.2''"
    using tags [rule_format, of 2] later [of 2] by (simp add: digit_char_def)
  from eq have eq': "deriveAddress toy_hdDerive toy_chash (Some ''w'') (Some ''shared'')
          (Some [toy_ring_entry ''K0'', toy_ring_entry ''K1'', toy_ring_entry ''K2''])
          (Some ''m/0/0'') (Some 2)
        = Inr \<lparr>ad_address = Some ''r of set(2:sig(K0/m/0/0)sig(K1/m/0/0)sig(K2/m/0/0))'',
               ad_definition = Some (ROfSet (Some 2)
                  [Sig ''K0/m/0/0'', Sig ''K1/m/0/0'', Sig ''K2/m/0/0'']),
               ad_path = Some ''m/0/0'', ad_signingPaths = sp,
               ad_walletId = Some ''w''\<rparr>"
    by (simp add: string_of_int_def digit_char_def)
  from normal eq' t0 t1 t2 show ?thesis by blast
qed

text \<open>
  C5, as stated, fails: \<^verbatim>\<open>Constants.ADDRESS_TYPES\<close> has three values, and the check
  of the argument admits the third, 'script'. For it deriveAddress raises nothing and
  returns a record.
\<close>

theorem deriveAddress_script_counterexample:
  "deriveAddress toy_hdDerive toy_chash (Some ''w'') (Some ''script'')
     (Some [toy_ring_entry ''K'']) (Some ''m/0/0'') (Some 1)
   = Inr \<lparr>ad_address = None, ad_definition = None, ad_path = Some ''m/0/0'',
          ad_signingPaths = Map.empty, ad_walletId = Some ''w''\<rparr>"
  by (simp add: deriveAddress_def ADDRESS_TYPES_def map_items_def toy_ring_entry_def
      toy_hdDerive_def)

lemma derive_publicKeys_Inl:
  "derive_publicKeys H items path = Inl e \<Longrightarrow> e = LibraryError"
  by (induction items arbitrary: e) (auto split: option.splits sum.splits)

text \<open>
  C5, amended. deriveAddress fails with an input-validation fault (Invalid Argument)
  for every addressType that is not one of the three values of
  \<^verbatim>\<open>Constants.ADDRESS_TYPES\<close> ('normal', 'shared', 'script'), and for NORMAL it fails
  whenever the ring does not have exactly one entry (with Invalid State, or earlier
  with the fault of the key derivation); in these cases it returns no
  AddressDefinition.
\<close>

theorem deriveAddress_faults:
  "(addressType \<notin> Some ` set ADDRESS_TYPES \<longrightarrow>
      deriveAddress H chash walletId addressType ring path m = Inl InvalidArgument)
   \<and> (length (map_items ring) \<noteq> 1 \<longrightarrow>
      deriveAddress H chash walletId (Some ''normal'') ring path m = Inl LibraryError
      \<or> deriveAddress H chash walletId (Some ''normal'') ring path m = Inl InvalidState)"
proof (intro conjI impI)
  assume "addressType \<notin> Some ` set ADDRESS_TYPES"
  then show "deriveAddress H chash walletId addressType ring path m = Inl InvalidArgument"
    by (simp add: deriveAddress_def)
next
  assume len: "length (map_items ring) \<noteq> 1"
  show "deriveAddress H chash walletId (Some ''normal'') ring path m = Inl LibraryError
      \<or> deriveAddress H chash walletId (Some ''normal'') ring path m = Inl InvalidState"
  proof (cases "derive_publicKeys H (map_items ring) path")
    case (Inl e)
    with derive_publicKeys_Inl [OF Inl] show ?thesis
      by (simp add: deriveAddress_def ADDRESS_TYPES_def)
  next
    case (Inr keys)
    from derive_publicKeys_length [OF Inr] len have "length keys \<noteq> 1" by simp
    then have "(case keys of [pubkey] \<Rightarrow> Inr (f pubkey) | _ \<Rightarrow> Inl InvalidState) = Inl InvalidState" for f :: "string \<Rightarrow> AddressDefinition"
      by (cases keys rule: list.exhaust; simp split: list.splits)
    with deriveAddress_normal [OF Inr] show ?thesis by simp
  qed
qed

theorem deriveAddress_faults_witness:
  "deriveAddress toy_hdDerive toy_chash (Some ''w'') (Some ''multisig'')
     (Some [toy_ring_entry ''K'']) (Some ''m/0/0'') (Some 1) = Inl InvalidArgument
   \<and> deriveAddress toy_hdDerive toy_chash (Some ''w'') (Some ''normal'')
     (Some [toy_ring_entry ''K0'', toy_ring_entry ''K1'']) (Some ''m/0/0'') (Some 1)
     = Inl InvalidState"
proof -
  note main = deriveAddress_faults [of "Some ''multisig''" toy_hdDerive toy_chash "Some ''w''"
      _ "Some ''m/0/0''" "Some 1"]
  have a: "deriveAddress toy_hdDerive toy_chash (Some ''w'') (Some ''multisig'')
     (Some [toy_ring_entry ''K'']) (Some ''m/0/0'') (Some 1) = Inl InvalidArgument"
    using main [of "Some [toy_ring_entry ''K'']"] by (simp add: ADDRESS_TYPES_def)
  have "deriveAddress toy_hdDerive toy_chash (Some ''w'') (Some ''normal'')
     (Some [toy_ring_entry ''K0'', toy_ring_entry ''K1'']) (Some ''m/0/0'') (Some 1)
     \<noteq> Inl LibraryError"
    by (simp add: deriveAddress_def ADDRESS_TYPES_def map_items_def toy_ring_entry_def
        toy_hdDerive_def)
  with main [of "Some [toy_ring_entry ''K0'', toy_ring_entry ''K1'']"]
  have b: "deriveAddress toy_hdDerive toy_chash (Some ''w'') (Some ''normal'')
     (Some [toy_ring_entry ''K0'', toy_ring_entry ''K1'']) (Some ''m/0/0'') (Some 1)
     = Inl InvalidState"
    by (simp add: map_items_def)
  from a b show ?thesis by simp
qed

section \<open>Properties of checkAddress\<close>

text \<open>
  C4, as stated, fails: the address type deriveAddress is run with is the server's
  \<^verbatim>\<open>address.type\<close> when the record has one, and the Copayer's own addressType only
  otherwise. The Copayer below is 1-of-1 with addressType 'normal'; the server's record
  says 'shared' and reports the address of the 1-of-set definition. checkAddress
  accepts it, although the address recomputed with the Copayer's own addressType is
  another one.
\<close>

theorem checkAddress_server_type_counterexample:
  "checkAddress toy_hdDerive toy_chash toy_copayer
     \<lparr>a_address = Some ''r of set(1:sig(K/m/0/0))'', a_type = Some ''shared'',
      a_path = Some ''m/0/0''\<rparr> = Inr True
   \<and> (case deriveAddress toy_hdDerive toy_chash (c_walletId toy_copayer)
            (c_addressType toy_copayer) (c_publicKeyRing toy_copayer) (Some ''m/0/0'')
            (c_m toy_copayer) of
        Inl e \<Rightarrow> None
      | Inr local \<Rightarrow> ad_address local) = Some ''sig(K/m/0/0)''"
  by (simp add: checkAddress_def isComplete_def truthy_num_def toy_copayer_def js_or_def
      truthy_def deriveAddress_def ADDRESS_TYPES_def map_items_def toy_ring_entry_def
      toy_hdDerive_def string_of_int_def digit_char_def)

text \<open>
  C4, amended. For every complete Copayer, checkAddress returns true iff
  deriveAddress, run on the Copayer's own walletId, publicKeyRing and m, on the path of
  the server's record, and on the address type of the server's record when it has one
  (the Copayer's own addressType otherwise), returns a record whose address equals the
  address the server reports. So when checkAddress returns true, replacing the reported
  address by any other value makes it return false.
\<close>

theorem checkAddress_recomputes:
  assumes "isComplete copayer"
  shows "((checkAddress H chash copayer address = Inr True)
          = (\<exists>local. deriveAddress H chash (c_walletId copayer)
                          (js_or (a_type address) (c_addressType copayer))
                          (c_publicKeyRing copayer) (a_path address) (c_m copayer) = Inr local
                    \<and> ad_address local = a_address address))
       \<and> (checkAddress H chash copayer address = Inr True \<longrightarrow>
            (\<forall>reported. reported \<noteq> a_address address \<longrightarrow>
               checkAddress H chash copayer (address\<lparr>a_address := reported\<rparr>) = Inr False))"
  using assms by (auto simp: checkAddress_def split: sum.splits)

theorem checkAddress_recomputes_witness:
  "checkAddress toy_hdDerive toy_chash toy_copayer
     \<lparr>a_address = Some ''sig(K/m/0/0)'', a_type = None, a_path = Some ''m/0/0''\<rparr> = Inr True
   \<and> checkAddress toy_hdDerive toy_chash toy_copayer
     \<lparr>a_address = Some ''sig(K/m/0/1)'', a_type = None, a_path = Some ''m/0/0''\<rparr> = Inr False"
proof -
  have complete: "isComplete toy_copayer"
    by (simp add: isComplete_def truthy_num_def toy_copayer_def map_items_def)
  have local: "deriveAddress toy_hdDerive toy_chash (c_walletId toy_copayer)
      (js_or None (c_addressType toy_copayer)) (c_publicKeyRing toy_copayer) (Some ''m/0/0'')
      (c_m toy_copayer)
    = Inr \<lparr>ad_address = Some ''sig(K/m/0/0)'', ad_definition = Some (Sig ''K/m/0/0''),
           ad_path = Some ''m/0/0'', ad_signingPaths = [''K/m/0/0'' \<mapsto> ''r''],
           ad_walletId = Some ''w''\<rparr>"
    by (simp add: toy_copayer_def js_or_def truthy_def deriveAddress_def ADDRESS_TYPES_def
        map_items_def toy_ring_entry_def toy_hdDerive_def)
  note main = checkAddress_recomputes [OF complete, of toy_hdDerive toy_chash
      "\<lparr>a_address = Some ''sig(K/m/0/0)'', a_type = None, a_path = Some ''m/0/0''\<rparr>"]
  from main local have ok: "checkAddress toy_hdDerive toy_chash toy_copayer
     \<lparr>a_address = Some ''sig(K/m/0/0)'', a_type = None, a_path = Some ''m/0/0''\<rparr> = Inr True"
    by simp
  with main have "checkAddress toy_hdDerive toy_chash toy_copayer
     (\<lparr>a_address = Some ''sig(K/m/0/0)'', a_type = None, a_path = Some ''m/0/0''\<rparr>
        \<lparr>a_address := Some ''sig(K/m/0/1)''\<rparr>) = Inr False"
    by simp
  with ok show ?thesis by simp
qed

section \<open>Properties of checkCopayers\<close>

text \<open>
  C3: a copayer list of the server in which two entries have the same extended public
  key is to be rejected, also when it has n entries, every entry is well-formed and
  signed, and the caller's own key is among them. The code does not do so on this
  input. The wallet has n = 2; the server returns the same entry twice, well-formed,
  signed with the wallet key and carrying the caller's own extended public key. The
  counter of repeated keys is read under the key "undefined" and holds NaN from the
  first increment on, which is falsy: the check for repeated public keys never fires,
  and the list is accepted.
\<close>

theorem checkCopayers_accepts_repeated_xPubKey:
  "checkCopayers toy_toPublicKey toy_ecdsa
     \<lparr>c_account = Some 0, c_copayerId = Some ''id'', c_copayerName = Some ''alice'',
      c_xPubKey = Some ''X'', c_walletId = Some ''w'', c_walletName = Some ''wallet'',
      c_m = Some 2, c_n = Some 2, c_publicKeyRing = Some [toy_ring_entry ''X''],
      c_walletPrivKey = Some ''wk'', c_sharedEncryptingKey = None,
      c_addressType = Some ''shared''\<rparr>
     [\<lparr>s_name = Some ''alice'', s_encryptedName = None, s_xPubKey = Some ''X'',
       s_requestPubKey = Some ''R'', s_signature = Some ''alice|X|R/signed for/pub:wk''\<rparr>,
      \<lparr>s_name = Some ''alice'', s_encryptedName = None, s_xPubKey = Some ''X'',
       s_requestPubKey = Some ''R'', s_signature = Some ''alice|X|R/signed for/pub:wk''\<rparr>]
   = Inr True"
  by (simp add: checkCopayers_def each_copayer_def postfix_increment_def ToNumber_def
      js_add1_def truthy_number_def array_xPubKey_def verifyMessage_def getCopayerHash_def
      array_join_def js_or_def truthy_def toy_toPublicKey_def toy_ecdsa_def)

section \<open>Properties of the expansion of a Device\<close>














section \<open>Properties of encryptPrivateKey and decryptPrivateKey\<close>

text \<open>
  C7. For every device that holds a plaintext private key (Decrypted state), with sjcl
  inverting its own encryption under the password: encryptPrivateKey(pw) succeeds and
  leaves no plaintext key or mnemonic; decryptPrivateKey(pw) after it succeeds and
  restores the device, in particular the exact xPrivKey and mnemonic strings; and
  decryptPrivateKey with a password sjcl rejects on the encrypted key raises
  'Could not decrypt' and leaves the device as it was, xPrivKeyEncrypted and
  mnemonicEncrypted included.
\<close>

theorem encrypt_then_decrypt:
  assumes "holds_plaintext_key d"
    and "\<forall>plaintext. sjcl_inverts X opts password plaintext"
    and "ext_sjcl_decrypt X wrong (ext_sjcl_encrypt X opts password (the (d_xPrivKey d))) = None"
  shows "\<exists>d1. encryptPrivateKey X password opts d = (None, d1)
            \<and> d_xPrivKey d1 = None \<and> d_mnemonic d1 = None
            \<and> decryptPrivateKey X password d1 = (None, d)
            \<and> decryptPrivateKey X wrong d1 = (Some (Error ''Could not decrypt''), d1)"
proof -
  from assms(1) obtain x where x: "d_xPrivKey d = Some x" "x \<noteq> []"
    and enc: "d_xPrivKeyEncrypted d = None" "d_mnemonicEncrypted d = None"
    and mn: "d_mnemonic d = None \<or> truthy (d_mnemonic d)"
    by (auto simp: holds_plaintext_key_def truthy_def split: option.splits)
  from assms(2) have inv: "ext_sjcl_encrypt X opts password p \<noteq> []"
    "ext_sjcl_decrypt X password (ext_sjcl_encrypt X opts password p) = Some p" for p
    by (auto simp: sjcl_inverts_def)
  from assms(3) x have wrong: "ext_sjcl_decrypt X wrong (ext_sjcl_encrypt X opts password x) = None"
    by simp
  from mn show ?thesis
  proof
    assume none: "d_mnemonic d = None"
    let ?d1 = "d\<lparr>d_xPrivKeyEncrypted := Some (ext_sjcl_encrypt X opts password x),
                  d_xPrivKey := None, d_mnemonic := None\<rparr>"
    have e: "encryptPrivateKey X password opts d = (None, ?d1)"
      using x enc none inv by (simp add: encryptPrivateKey_def truthy_def Let_def)
    have restored: "decryptPrivateKey X password ?d1 = (None, d)"
      using x enc none inv by (simp add: decryptPrivateKey_def truthy_def Let_def)
    have w: "decryptPrivateKey X wrong ?d1 = (Some (Error ''Could not decrypt''), ?d1)"
      using x enc none inv wrong by (simp add: decryptPrivateKey_def truthy_def Let_def)
    from e restored w show ?thesis by simp
  next
    assume "truthy (d_mnemonic d)"
    then obtain m where m: "d_mnemonic d = Some m" "m \<noteq> []"
      by (auto simp: truthy_def split: option.splits)
    let ?d1 = "d\<lparr>d_xPrivKeyEncrypted := Some (ext_sjcl_encrypt X opts password x),
                  d_mnemonicEncrypted := Some (ext_sjcl_encrypt X opts password m),
                  d_xPrivKey := None, d_mnemonic := None\<rparr>"
    have e: "encryptPrivateKey X password opts d = (None, ?d1)"
      using x enc m inv by (simp add: encryptPrivateKey_def truthy_def Let_def)
    have restored: "decryptPrivateKey X password ?d1 = (None, d)"
      using x enc m inv by (simp add: decryptPrivateKey_def truthy_def Let_def)
    have w: "decryptPrivateKey X wrong ?d1 = (Some (Error ''Could not decrypt''), ?d1)"
      using x enc m inv wrong by (simp add: decryptPrivateKey_def truthy_def Let_def)
    from e restored w show ?thesis by simp
  qed
qed

theorem encrypt_then_decrypt_witness:
  "encryptPrivateKey toy_ext ''password'' None toy_plain_device
     = (None, toy_plain_device
          \<lparr>d_xPrivKeyEncrypted := Some ''password:xprv1'',
           d_mnemonicEncrypted := Some ''password:abandon ability able'',
           d_xPrivKey := None, d_mnemonic := None\<rparr>)
   \<and> decryptPrivateKey toy_ext ''password''
       (toy_plain_device
          \<lparr>d_xPrivKeyEncrypted := Some ''password:xprv1'',
           d_mnemonicEncrypted := Some ''password:abandon ability able'',
           d_xPrivKey := None, d_mnemonic := None\<rparr>)
     = (None, toy_plain_device)
   \<and> decryptPrivateKey toy_ext ''wrong''
       (toy_plain_device
          \<lparr>d_xPrivKeyEncrypted := Some ''password:xprv1'',
           d_mnemonicEncrypted := Some ''password:abandon ability able'',
           d_xPrivKey := None, d_mnemonic := None\<rparr>)
     = (Some (Error ''Could not decrypt''),
        toy_plain_device
          \<lparr>d_xPrivKeyEncrypted := Some ''password:xprv1'',
           d_mnemonicEncrypted := Some ''password:abandon ability able'',
           d_xPrivKey := None, d_mnemonic := None\<rparr>)"
proof -
  have h1: "holds_plaintext_key toy_plain_device"
    by (simp add: holds_plaintext_key_def toy_plain_device_def truthy_def)
  have h2: "\<forall>plaintext. sjcl_inverts toy_ext None ''password'' plaintext"
    by (simp add: sjcl_inverts_def toy_ext_def)
  have h3: "ext_sjcl_decrypt toy_ext ''wrong''
      (ext_sjcl_encrypt toy_ext None ''password'' (the (d_xPrivKey toy_plain_device))) = None"
    by (simp add: toy_ext_def toy_plain_device_def)
  have e: "encryptPrivateKey toy_ext ''password'' None toy_plain_device
     = (None, toy_plain_device
          \<lparr>d_xPrivKeyEncrypted := Some ''password:xprv1'',
           d_mnemonicEncrypted := Some ''password:abandon ability able'',
           d_xPrivKey := None, d_mnemonic := None\<rparr>)"
    by (simp add: encryptPrivateKey_def toy_ext_def toy_plain_device_def truthy_def Let_def)
  from encrypt_then_decrypt [OF h1 h2 h3] e show ?thesis by auto
qed

section \<open>Properties of export and import\<close>

lemma Copayer_defaults_idem:
  "Copayer_defaults (Copayer_defaults c) = Copayer_defaults c"
  by (simp add: Copayer_defaults_def js_or_def truthy_def truthy_num_def)

lemma Copayer_defaults_xPubKey: "c_xPubKey (Copayer_defaults c) = c_xPubKey c"
  by (simp add: Copayer_defaults_def)

lemma fromObj_copayers_ok:
  "\<forall>c \<in> set cs. truthy (c_xPubKey c) \<Longrightarrow> fromObj_copayers cs = Inr (map Copayer_defaults cs)"
  by (induction cs) (simp_all add: Copayer_fromObj_def Copayer_defaults_xPubKey)

lemma Device_defaults_idem:
  "Device_defaults ((Device_defaults x)\<lparr>d_copayers := cs, d_externalSource := None\<rparr>)
   = (Device_defaults x)\<lparr>d_copayers := cs\<rparr>"
  by (simp add: Device_defaults_def js_or_def truthy_def)

text \<open>
  C8, as stated, fails on a persisted field of a Copayer. A Copayer that addCopayer has
  made and that has no wallet information yet has no addressType; fromObj, which both
  export and import run, fills a missing addressType with 'normal'. After export and
  import the Copayer's addressType is 'normal', and before it was absent.
\<close>

theorem export_import_addressType_counterexample:
  "(case API_export toy_ext \<lparr>eo_password = None, eo_noSign = False\<rparr>
           \<lparr>api_device = Some toy_device_with_copayer, api_copayer = None\<rparr> of
      Inl e \<Rightarrow> None
    | Inr str \<Rightarrow>
        (case API_import str \<lparr>api_device = None, api_copayer = None\<rparr> of
           Inl e \<Rightarrow> None
         | Inr this' \<Rightarrow> map_option (\<lambda>d. map c_addressType (d_copayers d)) (api_device this')))
     = Some [Some ''normal'']
   \<and> map c_addressType (d_copayers toy_device_with_copayer) = [None]"
  by (simp add: API_export_def API_import_def Device_fromObj_def Device_defaults_def
      Copayer_fromObj_def Copayer_defaults_def toObj_def js_or_def truthy_def truthy_num_def
      toy_device_with_copayer_def toy_plain_device_def)

lemma Copayer_defaults_explicit:
  "Copayer_defaults c =
     c\<lparr>c_account := Some (case c_account c of None \<Rightarrow> 0 | Some a \<Rightarrow> a),
       c_addressType :=
         Some (case c_addressType c of
                 None \<Rightarrow> ''normal''
               | Some t \<Rightarrow> if t = [] then ''normal'' else t)\<rparr>"
  by (simp add: Copayer_defaults_def js_or_def truthy_def truthy_num_def split: option.splits)

lemma Device_defaults_explicit:
  "Device_defaults x =
     x\<lparr>d_coin :=
         Some (case d_coin x of None \<Rightarrow> ''obyte'' | Some v \<Rightarrow> if v = [] then ''obyte'' else v),
       d_network :=
         Some (case d_network x of
                 None \<Rightarrow> ''livenet'' | Some v \<Rightarrow> if v = [] then ''livenet'' else v),
       d_derivationStrategy :=
         Some (case d_derivationStrategy x of
                 None \<Rightarrow> ''BIP44'' | Some v \<Rightarrow> if v = [] then ''BIP44'' else v),
       d_externalSource := None\<rparr>"
  by (simp add: Device_defaults_def js_or_def truthy_def split: option.splits)

text \<open>
  C8, amended. For every device x whose Copayers all have an extended public key (not
  the empty string), export with no option set succeeds, import of its output
  succeeds, and the imported device is x with these changes and no other: coin,
  network and derivationStrategy, where missing or empty, are 'obyte', 'livenet' and
  'BIP44'; in every Copayer a missing account is 0 and a missing or empty addressType
  is 'normal'; externalSource, which is not persisted, is absent. Every other field of
  the device and of each of its Copayers, and the order of the Copayers, is as in x.
\<close>

theorem export_import_roundtrip:
  assumes "api_device this = Some x"
    and "\<forall>c \<in> set (d_copayers x). \<exists>k. c_xPubKey c = Some k \<and> k \<noteq> []"
  shows "\<exists>str this'.
           API_export X \<lparr>eo_password = None, eo_noSign = False\<rparr> this = Inr str
         \<and> API_import str other = Inr this'
         \<and> api_device this' =
             Some (x\<lparr>d_coin :=
                       Some (case d_coin x of
                               None \<Rightarrow> ''obyte''
                             | Some v \<Rightarrow> if v = [] then ''obyte'' else v),
                     d_network :=
                       Some (case d_network x of
                               None \<Rightarrow> ''livenet''
                             | Some v \<Rightarrow> if v = [] then ''livenet'' else v),
                     d_derivationStrategy :=
                       Some (case d_derivationStrategy x of
                               None \<Rightarrow> ''BIP44''
                             | Some v \<Rightarrow> if v = [] then ''BIP44'' else v),
                     d_copayers :=
                       map (\<lambda>c. c\<lparr>c_account :=
                                     Some (case c_account c of None \<Rightarrow> 0 | Some a \<Rightarrow> a),
                                   c_addressType :=
                                     Some (case c_addressType c of
                                             None \<Rightarrow> ''normal''
                                           | Some t \<Rightarrow> if t = [] then ''normal'' else t)\<rparr>)
                           (d_copayers x),
                     d_externalSource := None\<rparr>)"
proof -
  let ?cs = "map Copayer_defaults (d_copayers x)"
  from assms(2) have keys: "\<forall>c \<in> set (d_copayers x). truthy (c_xPubKey c)"
    by (auto simp: truthy_def)
  then have first: "fromObj_copayers (d_copayers x) = Inr ?cs"
    by (rule fromObj_copayers_ok)
  have "\<forall>c \<in> set ?cs. truthy (c_xPubKey c)"
    using keys by (simp add: Copayer_defaults_xPubKey)
  then have "fromObj_copayers ?cs = Inr (map Copayer_defaults ?cs)"
    by (rule fromObj_copayers_ok)
  then have second: "fromObj_copayers ?cs = Inr ?cs"
    by (simp add: Copayer_defaults_idem)
  have e: "API_export X \<lparr>eo_password = None, eo_noSign = False\<rparr> this
      = Inr ((Device_defaults x)\<lparr>d_copayers := ?cs, d_externalSource := None\<rparr>)"
    using assms(1) first by (simp add: API_export_def Device_fromObj_def toObj_def truthy_def)
  have i: "API_import ((Device_defaults x)\<lparr>d_copayers := ?cs, d_externalSource := None\<rparr>) other
      = Inr (other\<lparr>api_device := Some ((Device_defaults x)\<lparr>d_copayers := ?cs\<rparr>),
                   api_copayer := (case ?cs of [] \<Rightarrow> api_copayer other | c # cs \<Rightarrow> Some c)\<rparr>)"
    using second by (simp add: API_import_def Device_fromObj_def Device_defaults_idem)
  have cs: "?cs = map (\<lambda>c. c\<lparr>c_account :=
                                     Some (case c_account c of None \<Rightarrow> 0 | Some a \<Rightarrow> a),
                                   c_addressType :=
                                     Some (case c_addressType c of
                                             None \<Rightarrow> ''normal''
                                           | Some t \<Rightarrow> if t = [] then ''normal'' else t)\<rparr>)
                           (d_copayers x)"
    by (simp add: Copayer_defaults_explicit)
  from e i show ?thesis
    unfolding cs by (simp add: Device_defaults_explicit)
qed

theorem export_import_roundtrip_witness:
  "(case API_export toy_ext \<lparr>eo_password = None, eo_noSign = False\<rparr>
           \<lparr>api_device = Some toy_device_to_export, api_copayer = None\<rparr> of
      Inl e \<Rightarrow> None
    | Inr str \<Rightarrow>
        (case API_import str \<lparr>api_device = None, api_copayer = None\<rparr> of
           Inl e \<Rightarrow> None
         | Inr this' \<Rightarrow> api_device this'))
   = Some (toy_device_to_export
             \<lparr>d_coin := Some ''obyte'',
              d_copayers := [toy_fresh_copayer\<lparr>c_addressType := Some ''normal''\<rparr>,
                             toy_member_copayer],
              d_externalSource := None\<rparr>)"
proof -
  have copayers: "\<forall>c \<in> set (d_copayers toy_device_to_export).
      \<exists>k. c_xPubKey c = Some k \<and> k \<noteq> []"
    by (simp add: toy_device_to_export_def toy_fresh_copayer_def toy_member_copayer_def)
  from export_import_roundtrip
    [where this = "\<lparr>api_device = Some toy_device_to_export, api_copayer = None\<rparr>"
       and x = toy_device_to_export and X = toy_ext
       and other = "\<lparr>api_device = None, api_copayer = None\<rparr>", OF _ copayers]
  obtain str this' where
    "API_export toy_ext \<lparr>eo_password = None, eo_noSign = False\<rparr>
       \<lparr>api_device = Some toy_device_to_export, api_copayer = None\<rparr> = Inr str"
    and "API_import str \<lparr>api_device = None, api_copayer = None\<rparr> = Inr this'"
    and "api_device this' =
      Some (toy_device_to_export
        \<lparr>d_coin :=
           Some (case d_coin toy_device_to_export of
                   None \<Rightarrow> ''obyte''
                 | Some v \<Rightarrow> if v = [] then ''obyte'' else v),
         d_network :=
           Some (case d_network toy_device_to_export of
                   None \<Rightarrow> ''livenet''
                 | Some v \<Rightarrow> if v = [] then ''livenet'' else v),
         d_derivationStrategy :=
           Some (case d_derivationStrategy toy_device_to_export of
                   None \<Rightarrow> ''BIP44''
                 | Some v \<Rightarrow> if v = [] then ''BIP44'' else v),
         d_copayers :=
           map (\<lambda>c. c\<lparr>c_account := Some (case c_account c of None \<Rightarrow> 0 | Some a \<Rightarrow> a),
                       c_addressType :=
                         Some (case c_addressType c of
                                 None \<Rightarrow> ''normal''
                               | Some t \<Rightarrow> if t = [] then ''normal'' else t)\<rparr>)
               (d_copayers toy_device_to_export),
         d_externalSource := None\<rparr>)"
    by auto
  then show ?thesis
    by (simp add: toy_device_to_export_def toy_plain_device_def toy_fresh_copayer_def
        toy_member_copayer_def)
qed

section \<open>Properties of addCopayer\<close>

lemma Copayer_expand_account:
  "Copayer_expand X deviceId x = Inr copayer \<Longrightarrow> c_account copayer = c_account x"
  by (auto simp: Copayer_expand_def split: if_splits)

lemma addWalletPrivateKey_account:
  "addWalletPrivateKey X walletPrivKey x = Inr x1 \<Longrightarrow> c_account x1 = c_account x"
  by (auto simp: addWalletPrivateKey_def split: option.splits)

lemma Copayer_fromExtendedPublicKey_account:
  assumes "Copayer_fromExtendedPublicKey X deviceId xPubKey account opts = Inr copayer"
  shows "c_account copayer = Some account"
proof (cases "truthy (co_walletPrivKey opts)")
  case False
  with assms have "Copayer_expand X deviceId
      (new_Copayer\<lparr>c_xPubKey := Some xPubKey, c_account := Some account\<rparr>) = Inr copayer"
    by (simp add: Copayer_fromExtendedPublicKey_def)
  from Copayer_expand_account [OF this] show ?thesis by simp
next
  case True
  with assms obtain x1 where
    a: "addWalletPrivateKey X (the (co_walletPrivKey opts))
          (new_Copayer\<lparr>c_xPubKey := Some xPubKey, c_account := Some account\<rparr>) = Inr x1"
    and e: "Copayer_expand X deviceId x1 = Inr copayer"
    by (auto simp: Copayer_fromExtendedPublicKey_def split: sum.splits)
  from Copayer_expand_account [OF e] addWalletPrivateKey_account [OF a]
  show ?thesis by simp
qed


lemma js_in_map: "js_in key (map f xs) = js_in key xs"
  by (simp add: js_in_def)

text \<open>
  C10. addCopayer(account) adds nothing and returns null exactly when account is an
  index of the array of Copayers (0 \<le> account < copayers.length), whatever the
  account numbers of the Copayers are. Otherwise it throws or it appends a new Copayer
  with that account number and returns it, also when a Copayer with that account
  number is there already: with the accounts [0, 2], addCopayer(1) is rejected and
  addCopayer(2) adds a second Copayer of account 2.
\<close>

theorem addCopayer_rejects_by_index:
  "(0 \<le> account \<and> account < int (length (d_copayers this))
      \<longrightarrow> addCopayer X account opts this = Inr (None, this))
   \<and> (\<not> (0 \<le> account \<and> account < int (length (d_copayers this)))
      \<longrightarrow> (\<exists>e. addCopayer X account opts this = Inl e)
          \<or> (\<exists>copayer. addCopayer X account opts this
                 = Inr (Some copayer, this\<lparr>d_copayers := d_copayers this @ [copayer]\<rparr>)
               \<and> c_account copayer = Some account))"
proof (intro conjI impI)
  assume "0 \<le> account \<and> account < int (length (d_copayers this))"
  then have "js_in account (d_copayers this)" by (simp add: js_in_def)
  then show "addCopayer X account opts this = Inr (None, this)"
    by (simp add: addCopayer_def js_in_map)
next
  assume "\<not> (0 \<le> account \<and> account < int (length (d_copayers this)))"
  then have out: "\<not> js_in account (d_copayers this)" by (simp add: js_in_def)
  show "(\<exists>e. addCopayer X account opts this = Inl e)
          \<or> (\<exists>copayer. addCopayer X account opts this
                 = Inr (Some copayer, this\<lparr>d_copayers := d_copayers this @ [copayer]\<rparr>)
               \<and> c_account copayer = Some account)"
  proof (cases "getDerivedXPrivKey X account (co_password opts) this")
    case (Inl e)
    with out have "addCopayer X account opts this = Inl e"
      by (simp add: addCopayer_def js_in_map)
    then show ?thesis by blast
  next
    case (Inr xPriv)
    show ?thesis
    proof (cases "Copayer_fromExtendedPublicKey X (d_deviceId this)
                        (ext_hdPublicKey X xPriv) account opts")
      case (Inl e)
      with out Inr have "addCopayer X account opts this = Inl e"
        by (simp add: addCopayer_def js_in_map)
      then show ?thesis by blast
    next
      case copayer: (Inr copayer)
      with out Inr have "addCopayer X account opts this
          = Inr (Some copayer, this\<lparr>d_copayers := d_copayers this @ [copayer]\<rparr>)"
        by (simp add: addCopayer_def js_in_map)
      with Copayer_fromExtendedPublicKey_account [OF copayer] show ?thesis by blast
    qed
  qed
qed

theorem addCopayer_rejects_by_index_witness:
  "addCopayer toy_ext 1 \<lparr>co_password = None, co_walletPrivKey = None\<rparr> toy_device_0_2
     = Inr (None, toy_device_0_2)
   \<and> (case addCopayer toy_ext 2 \<lparr>co_password = None, co_walletPrivKey = None\<rparr>
             toy_device_0_2 of
        Inl e \<Rightarrow> None
      | Inr (returned, this') \<Rightarrow>
          Some (map_option c_account returned, map c_account (d_copayers this')))
     = Some (Some (Some 2), [Some 0, Some 2, Some 2])"
proof -
  have len: "length (d_copayers toy_device_0_2) = 2"
    by (simp add: toy_device_0_2_def)
  from addCopayer_rejects_by_index
    [of 1 toy_device_0_2 toy_ext "\<lparr>co_password = None, co_walletPrivKey = None\<rparr>"] len
  have rejected: "addCopayer toy_ext 1 \<lparr>co_password = None, co_walletPrivKey = None\<rparr>
      toy_device_0_2 = Inr (None, toy_device_0_2)"
    by simp
  from addCopayer_rejects_by_index
    [of 2 toy_device_0_2 toy_ext "\<lparr>co_password = None, co_walletPrivKey = None\<rparr>"] len
  have "(\<exists>e. addCopayer toy_ext 2 \<lparr>co_password = None, co_walletPrivKey = None\<rparr>
              toy_device_0_2 = Inl e)
      \<or> (\<exists>copayer. addCopayer toy_ext 2 \<lparr>co_password = None, co_walletPrivKey = None\<rparr>
              toy_device_0_2
            = Inr (Some copayer,
                   toy_device_0_2\<lparr>d_copayers := d_copayers toy_device_0_2 @ [copayer]\<rparr>)
          \<and> c_account copayer = Some 2)"
    by simp
  moreover have "getDerivedXPrivKey toy_ext 2 None toy_device_0_2 \<noteq> Inl e" for e
    by (simp add: getDerivedXPrivKey_def getKeys_def isPrivKeyEncrypted_def truthy_def
        toy_device_0_2_def toy_plain_device_def toy_ext_def)
  then have "addCopayer toy_ext 2 \<lparr>co_password = None, co_walletPrivKey = None\<rparr>
      toy_device_0_2 \<noteq> Inl e" for e
    by (auto simp: addCopayer_def Copayer_fromExtendedPublicKey_def Copayer_expand_def
        new_Copayer_def truthy_def toy_ext_def Let_def split: sum.splits)
  ultimately obtain copayer where
    "addCopayer toy_ext 2 \<lparr>co_password = None, co_walletPrivKey = None\<rparr> toy_device_0_2
       = Inr (Some copayer,
              toy_device_0_2\<lparr>d_copayers := d_copayers toy_device_0_2 @ [copayer]\<rparr>)"
    and "c_account copayer = Some 2"
    by blast
  with rejected show ?thesis
    by (simp add: toy_device_0_2_def toy_copayer_of_account_def)
qed

end
